theory Spec2Isabelle
  imports Main "HOL-Library.List_Lexorder" "HOL-Library.Char_ord"
begin

section \<open>Python values and the library functions the servers call\<close>

text \<open>
  The repository is four small Python programs: the catalog server (\<^verbatim>\<open>mcpserver.py\<close>), the
  archivist server (\<^verbatim>\<open>crew_agent_server.py\<close>), the router (\<^verbatim>\<open>smolagents_server.py\<close>) and the
  interactive client (\<^verbatim>\<open>main.py\<close>).  Their functions are embedded below as HOL functions.

  A Python \<^verbatim>\<open>str\<close> is a \<^typ>\<open>string\<close> whose characters are the code points below 256; a
  value produced by \<^verbatim>\<open>json.load\<close> is a \<^verbatim>\<open>json\<close> term, a \<^verbatim>\<open>dict\<close> being the list of its items in
  insertion order (the keys of a dict are distinct).  Numbers are integers: floating point values
  are outside the embedding.  An exception is a value of \<^verbatim>\<open>py_error\<close>, and a function that can
  raise returns \<^verbatim>\<open>py_error + 'a\<close>.
\<close>

datatype json =
    JNull
  | JBool bool
  | JInt int
  | JStr string
  | JArr "json list"
  | JObj "(string \<times> json) list"

datatype py_error =
    IndexError
  | KeyError string
  | TypeError
  | AttributeError
  | JSONDecodeError string
  | DocstringParsingException string
  | EOFError
  | ClientError string
  | CollaboratorError string

subsection \<open>Strings\<close>

text \<open>\<^verbatim>\<open>s.startswith(p)\<close>, \<^verbatim>\<open>s.endswith(p)\<close>, \<^verbatim>\<open>p in s\<close> and \<^verbatim>\<open>sep.join(xs)\<close>.\<close>

fun startswith :: "string \<Rightarrow> string \<Rightarrow> bool" where
  "startswith s [] = True"
| "startswith [] (p # ps) = False"
| "startswith (c # cs) (p # ps) = (c = p \<and> startswith cs ps)"

definition endswith :: "string \<Rightarrow> string \<Rightarrow> bool" where
  "endswith s p = startswith (rev s) (rev p)"

fun contains :: "string \<Rightarrow> string \<Rightarrow> bool" where
  "contains [] p = (p = [])"
| "contains (c # cs) p = (startswith (c # cs) p \<or> contains cs p)"

fun str_join :: "string \<Rightarrow> string list \<Rightarrow> string" where
  "str_join sep [] = []"
| "str_join sep [x] = x"
| "str_join sep (x # y # ys) = x @ sep @ str_join sep (y # ys)"

text \<open>
  \<^verbatim>\<open>str.isspace\<close> on one character, \<^verbatim>\<open>str.strip()\<close> and \<^verbatim>\<open>str.lower()\<close>, on the code points
  below 256: the white space characters are U+0009-U+000D, U+001C-U+0020, U+0085 and U+00A0; the
  upper case letters are A-Z, U+00C0-U+00D6 and U+00D8-U+00DE, each 32 below its lower case form.
\<close>

definition py_isspace :: "char \<Rightarrow> bool" where
  "py_isspace c =
     (let n = (of_char c :: nat)
      in (9 \<le> n \<and> n \<le> 13) \<or> (28 \<le> n \<and> n \<le> 32) \<or> n = 133 \<or> n = 160)"

definition strip :: "string \<Rightarrow> string" where
  "strip s = rev (dropWhile py_isspace (rev (dropWhile py_isspace s)))"

definition lower_char :: "char \<Rightarrow> char" where
  "lower_char c =
     (let n = (of_char c :: nat)
      in if (65 \<le> n \<and> n \<le> 90) \<or> (192 \<le> n \<and> n \<le> 222 \<and> n \<noteq> 215)
         then char_of (n + 32) else c)"

definition lower :: "string \<Rightarrow> string" where
  "lower s = map lower_char s"

text \<open>
  \<^verbatim>\<open>s.split(":", 1)[1]\<close>: the text after the first colon; the index raises when there is no
  colon.  \<^verbatim>\<open>s.partition(" ")[2]\<close>: the text after the first space, empty when there is none.
\<close>

definition split_colon_1 :: "string \<Rightarrow> py_error + string" where
  "split_colon_1 s =
     (case dropWhile (\<lambda>c. c \<noteq> CHR '':'') s of
        [] \<Rightarrow> Inl IndexError
      | _ # rest \<Rightarrow> Inr rest)"

definition partition_space_2 :: "string \<Rightarrow> string" where
  "partition_space_2 s =
     (case dropWhile (\<lambda>c. c \<noteq> CHR '' '') s of
        [] \<Rightarrow> []
      | _ # rest \<Rightarrow> rest)"

subsection \<open>Paths\<close>

text \<open>
  \<^verbatim>\<open>os.path.join\<close> of posixpath, and the root that \<^verbatim>\<open>os.path.splitext\<close> returns: the extension
  starts at the last dot, unless that dot comes before the last slash or only dots stand between
  the last slash and it (\<^verbatim>\<open>str.rfind\<close> returns \<^verbatim>\<open>-1\<close> when the character is absent).
\<close>

definition path_join :: "string \<Rightarrow> string \<Rightarrow> string" where
  "path_join a b =
     (if startswith b ''/'' then b
      else if a = [] \<or> endswith a ''/'' then a @ b
      else a @ ''/'' @ b)"

definition rfind :: "string \<Rightarrow> char \<Rightarrow> int" where
  "rfind s c =
     (if c \<in> set s
      then int (length s) - 1 - int (length (takeWhile (\<lambda>x. x \<noteq> c) (rev s)))
      else - 1)"

definition splitext_root :: "string \<Rightarrow> string" where
  "splitext_root p =
     (let sepIndex = rfind p (CHR ''/'');
          dotIndex = rfind p (CHR ''.'')
      in if dotIndex > sepIndex \<and>
            list_ex (\<lambda>c. c \<noteq> CHR ''.'')
              (take (nat (dotIndex - (sepIndex + 1))) (drop (nat (sepIndex + 1)) p))
         then take (nat dotIndex) p
         else p)"

subsection \<open>Serialising values\<close>

text \<open>
  \<^verbatim>\<open>json.dumps(v)\<close> with its defaults: separators \<^verbatim>\<open>", "\<close> and \<^verbatim>\<open>": "\<close>, and \<^verbatim>\<open>ensure_ascii\<close>, which
  escapes the quote, the backslash and every character outside the range from space to tilde.
\<close>

definition dquote :: char where
  "dquote = CHR 0x22"

definition backslash :: char where
  "backslash = CHR 0x5C"

definition hex_digit :: "nat \<Rightarrow> char" where
  "hex_digit n = ''0123456789abcdef'' ! (n mod 16)"

fun nat_digits :: "nat \<Rightarrow> string" where
  "nat_digits n =
     (if n < 10 then [''0123456789'' ! n]
      else nat_digits (n div 10) @ [''0123456789'' ! (n mod 10)])"

declare nat_digits.simps [simp del]

definition str_int :: "int \<Rightarrow> string" where
  "str_int i = (if i < 0 then CHR ''-'' # nat_digits (nat (- i)) else nat_digits (nat i))"

definition escape_ascii :: "char \<Rightarrow> string" where
  "escape_ascii c =
     (let n = (of_char c :: nat)
      in if c = dquote then [backslash, dquote]
         else if c = backslash then [backslash, backslash]
         else if n = 10 then [backslash, CHR ''n'']
         else if n = 13 then [backslash, CHR ''r'']
         else if n = 9 then [backslash, CHR ''t'']
         else if n = 8 then [backslash, CHR ''b'']
         else if n = 12 then [backslash, CHR ''f'']
         else if n < 32 \<or> 126 < n
           then [backslash, CHR ''u'', CHR ''0'', CHR ''0'', hex_digit (n div 16), hex_digit n]
         else [c])"

definition encode_str :: "string \<Rightarrow> string" where
  "encode_str s = dquote # concat (map escape_ascii s) @ [dquote]"

fun json_dumps :: "json \<Rightarrow> string" where
  "json_dumps JNull = ''null''"
| "json_dumps (JBool b) = (if b then ''true'' else ''false'')"
| "json_dumps (JInt i) = str_int i"
| "json_dumps (JStr s) = encode_str s"
| "json_dumps (JArr xs) = ''['' @ str_join '', '' (map json_dumps xs) @ '']''"
| "json_dumps (JObj kvs) =
     ''{'' @ str_join '', '' (map (\<lambda>(k, v). encode_str k @ '': '' @ json_dumps v) kvs) @ ''}''"

section \<open>The world outside the program\<close>

text \<open>
  What the programs read from their environment, as functions of a record: the directory of
  the modules (\<^verbatim>\<open>os.path.dirname(__file__)\<close>, the same for the four programs), environment
  variables, the file system (a snapshot: nothing in the repository writes to it), the remote
  metadata source and the network calls of the client library.  \<^verbatim>\<open>load_json_file\<close> is
  \<^verbatim>\<open>json.load\<close> on an opened file and \<^verbatim>\<open>http_get_json\<close> is \<^verbatim>\<open>requests.get(url, timeout=10)\<close>,
  \<^verbatim>\<open>raise_for_status()\<close> and \<^verbatim>\<open>.json()\<close>; both are \<^verbatim>\<open>None\<close> when any step raises.  \<^verbatim>\<open>json_loads\<close> is
  the standard library's decoder, \<^verbatim>\<open>Inl\<close> carrying the text of its \<^verbatim>\<open>JSONDecodeError\<close>.
  \<^verbatim>\<open>run_sync\<close> is one \<^verbatim>\<open>Client(base_url).run_sync(agent, input)\<close> with a single text part: it
  either raises or completes with a run that has an output and an error.  The two reasoning
  collaborators are opaque: \<^verbatim>\<open>crew_kickoff\<close> is the archivist's retrieval pipeline and crew, built on
  a file for a book title and a query, and \<^verbatim>\<open>agent_run\<close> is the router's tool-calling agent on a
  prompt, each giving the text of its result or the exception it raises.
\<close>

type_synonym message = "string list"

record run =
  run_output :: "message list"
  run_error :: "string option"

datatype call_outcome = Raised string | Completed run

record world =
  module_dir :: string
  getenv :: "string \<Rightarrow> string option"
  isdir :: "string \<Rightarrow> bool"
  listdir :: "string \<Rightarrow> string list"
  isfile :: "string \<Rightarrow> bool"
  load_json_file :: "string \<Rightarrow> json option"
  http_get_json :: "string \<Rightarrow> json option"
  json_loads :: "string \<Rightarrow> string + json"
  run_sync :: "string \<Rightarrow> string \<Rightarrow> string \<Rightarrow> call_outcome"
  crew_kickoff :: "string \<Rightarrow> json \<Rightarrow> json \<Rightarrow> py_error + string"
  agent_run :: "string \<Rightarrow> py_error + string"

section \<open>The catalog server (mcpserver.py)\<close>

definition DATA_DIR :: "world \<Rightarrow> string" where
  "DATA_DIR w = path_join (module_dir w) ''data''"

definition LOCAL_META_PATH :: "world \<Rightarrow> string" where
  "LOCAL_META_PATH w = path_join (module_dir w) ''book_metadata.json''"

definition load_local_metadata :: "world \<Rightarrow> json" where
  "load_local_metadata w =
     (case load_json_file w (LOCAL_META_PATH w) of
        Some v \<Rightarrow> v
      | None \<Rightarrow> JObj [])"

definition load_metadata :: "world \<Rightarrow> json" where
  "load_metadata w =
     (case getenv w ''BOOK_METADATA_URL'' of
        None \<Rightarrow> load_local_metadata w
      | Some url \<Rightarrow>
          if url \<noteq> [] then
            (case http_get_json w url of
               Some v \<Rightarrow> v
             | None \<Rightarrow> load_local_metadata w)
          else load_local_metadata w)"

definition scan_books :: "world \<Rightarrow> string list" where
  "scan_books w =
     (if \<not> isdir w (DATA_DIR w) then []
      else map splitext_root
             (filter (\<lambda>f. endswith f ''.txt'' \<and> isfile w (path_join (DATA_DIR w) f))
                (listdir w (DATA_DIR w))))"

text \<open>
  \<^verbatim>\<open>list(metadata.keys())\<close> and \<^verbatim>\<open>metadata.get(key, {})\<close>: a value that is not a dict has neither
  method.
\<close>

definition dict_keys :: "json \<Rightarrow> py_error + string list" where
  "dict_keys m = (case m of JObj kvs \<Rightarrow> Inr (map fst kvs) | _ \<Rightarrow> Inl AttributeError)"

definition dict_get :: "json \<Rightarrow> string \<Rightarrow> py_error + json" where
  "dict_get m key =
     (case m of
        JObj kvs \<Rightarrow> Inr (case map_of kvs key of Some v \<Rightarrow> v | None \<Rightarrow> JObj [])
      | _ \<Rightarrow> Inl AttributeError)"

text \<open>\<^verbatim>\<open>input[0].parts[0].content if input and input[0].parts else ""\<close>\<close>

definition first_content_or_empty :: "message list \<Rightarrow> string" where
  "first_content_or_empty inp =
     (case inp of
        [] \<Rightarrow> []
      | m # _ \<Rightarrow> (case m of [] \<Rightarrow> [] | p # _ \<Rightarrow> p))"

text \<open>\<^verbatim>\<open>list(metadata.keys()) or scan_books()\<close>, the keys that \<^verbatim>\<open>__LIST__\<close> sorts and returns.\<close>

definition catalog_keys :: "world \<Rightarrow> json \<Rightarrow> py_error + string list" where
  "catalog_keys w metadata =
     (case dict_keys metadata of
        Inl e \<Rightarrow> Inl e
      | Inr ks \<Rightarrow> Inr (if ks \<noteq> [] then ks else scan_books w))"

definition book_catalog_agent :: "world \<Rightarrow> message list \<Rightarrow> py_error + message list" where
  "book_catalog_agent w inp =
     (let prompt = first_content_or_empty inp;
          metadata = load_metadata w
      in if prompt = ''__LIST__'' then
           (case catalog_keys w metadata of
              Inl e \<Rightarrow> Inl e
            | Inr keys \<Rightarrow> Inr [[json_dumps (JArr (map JStr (sort keys)))]])
         else if startswith prompt ''__META__:'' then
           (case split_colon_1 prompt of
              Inl e \<Rightarrow> Inl e
            | Inr key \<Rightarrow>
                (case dict_get metadata key of
                   Inl e \<Rightarrow> Inl e
                 | Inr meta \<Rightarrow> Inr [[json_dumps meta]]))
         else Inr [[''{}'']])"

section \<open>More of the library: indented JSON, \<^verbatim>\<open>str\<close> and \<^verbatim>\<open>repr\<close>, truth values\<close>

text \<open>
  \<^verbatim>\<open>json.dumps(v, indent=2, ensure_ascii=False)\<close>: one item per line, each level indented by two
  spaces, the items separated by a comma; only the quote, the backslash and the control
  characters are escaped.
\<close>

definition newline :: char where
  "newline = CHR 0x0A"

definition squote :: char where
  "squote = CHR 0x27"

definition escape_basic :: "char \<Rightarrow> string" where
  "escape_basic c =
     (let n = (of_char c :: nat)
      in if c = dquote then [backslash, dquote]
         else if c = backslash then [backslash, backslash]
         else if n = 10 then [backslash, CHR ''n'']
         else if n = 13 then [backslash, CHR ''r'']
         else if n = 9 then [backslash, CHR ''t'']
         else if n = 8 then [backslash, CHR ''b'']
         else if n = 12 then [backslash, CHR ''f'']
         else if n < 32
           then [backslash, CHR ''u'', CHR ''0'', CHR ''0'', hex_digit (n div 16), hex_digit n]
         else [c])"

definition encode_str_basic :: "string \<Rightarrow> string" where
  "encode_str_basic s = dquote # concat (map escape_basic s) @ [dquote]"

definition newline_indent :: "nat \<Rightarrow> string" where
  "newline_indent level = newline # replicate (2 * level) (CHR '' '')"

fun json_dumps_indent :: "nat \<Rightarrow> json \<Rightarrow> string" where
  "json_dumps_indent level JNull = ''null''"
| "json_dumps_indent level (JBool b) = (if b then ''true'' else ''false'')"
| "json_dumps_indent level (JInt i) = str_int i"
| "json_dumps_indent level (JStr s) = encode_str_basic s"
| "json_dumps_indent level (JArr xs) =
     (if xs = [] then ''[]''
      else ''['' @ newline_indent (level + 1)
           @ str_join ('','' @ newline_indent (level + 1))
               (map (json_dumps_indent (level + 1)) xs)
           @ newline_indent level @ '']'')"
| "json_dumps_indent level (JObj kvs) =
     (if kvs = [] then ''{}''
      else ''{'' @ newline_indent (level + 1)
           @ str_join ('','' @ newline_indent (level + 1))
               (map (\<lambda>(k, v). encode_str_basic k @ '': '' @ json_dumps_indent (level + 1) v) kvs)
           @ newline_indent level @ ''}'')"

text \<open>
  \<^verbatim>\<open>repr\<close> of a string: single quotes, unless the string has a single quote and no double
  quote; the quote, the backslash and the characters that are not printable are escaped.
  \<^verbatim>\<open>str(v)\<close>, which an f-string applies, is the string itself for a string and \<^verbatim>\<open>repr(v)\<close>
  for every other value.
\<close>

definition repr_char :: "char \<Rightarrow> char \<Rightarrow> string" where
  "repr_char q c =
     (let n = (of_char c :: nat)
      in if c = q \<or> c = backslash then [backslash, c]
         else if n = 9 then [backslash, CHR ''t'']
         else if n = 10 then [backslash, CHR ''n'']
         else if n = 13 then [backslash, CHR ''r'']
         else if n < 32 \<or> n = 127 \<or> (128 \<le> n \<and> n \<le> 160) \<or> n = 173
           then [backslash, CHR ''x'', hex_digit (n div 16), hex_digit n]
         else [c])"

definition repr_str :: "string \<Rightarrow> string" where
  "repr_str s =
     (let q = (if squote \<in> set s \<and> dquote \<notin> set s then dquote else squote)
      in q # concat (map (repr_char q) s) @ [q])"

fun py_repr :: "json \<Rightarrow> string" where
  "py_repr JNull = ''None''"
| "py_repr (JBool b) = (if b then ''True'' else ''False'')"
| "py_repr (JInt i) = str_int i"
| "py_repr (JStr s) = repr_str s"
| "py_repr (JArr xs) = ''['' @ str_join '', '' (map py_repr xs) @ '']''"
| "py_repr (JObj kvs) =
     ''{'' @ str_join '', '' (map (\<lambda>(k, v). repr_str k @ '': '' @ py_repr v) kvs) @ ''}''"

definition py_str :: "json \<Rightarrow> string" where
  "py_str v = (case v of JStr s \<Rightarrow> s | _ \<Rightarrow> py_repr v)"

text \<open>The truth value of a Python value, as \<^verbatim>\<open>not v\<close> and \<^verbatim>\<open>if v\<close> read it.\<close>

fun truthy :: "json \<Rightarrow> bool" where
  "truthy JNull = False"
| "truthy (JBool b) = b"
| "truthy (JInt i) = (i \<noteq> 0)"
| "truthy (JStr s) = (s \<noteq> [])"
| "truthy (JArr xs) = (xs \<noteq> [])"
| "truthy (JObj kvs) = (kvs \<noteq> [])"

text \<open>\<^verbatim>\<open>input[0].parts[0].content\<close> and \<^verbatim>\<open>d[key]\<close>, which raise.\<close>

definition first_content :: "message list \<Rightarrow> py_error + string" where
  "first_content inp =
     (case inp of
        [] \<Rightarrow> Inl IndexError
      | m # _ \<Rightarrow> (case m of [] \<Rightarrow> Inl IndexError | p # _ \<Rightarrow> Inr p))"

definition subscript :: "json \<Rightarrow> string \<Rightarrow> py_error + json" where
  "subscript d key =
     (case d of
        JObj kvs \<Rightarrow> (case map_of kvs key of Some v \<Rightarrow> Inr v | None \<Rightarrow> Inl (KeyError key))
      | _ \<Rightarrow> Inl TypeError)"

text \<open>\<^verbatim>\<open>run.output[0].parts[0].content\<close> under the guard \<^verbatim>\<open>run.output and run.output[0].parts\<close>.\<close>

definition output_content :: "run \<Rightarrow> string option" where
  "output_content r =
     (case run_output r of
        [] \<Rightarrow> None
      | m # _ \<Rightarrow> (case m of [] \<Rightarrow> None | p # _ \<Rightarrow> Some p))"

section \<open>The archivist server (crew\_agent\_server.py)\<close>

text \<open>
  The \<^verbatim>\<open>try\<close> block of \<^verbatim>\<open>archivist_agent\<close>: decode the request, read the two fields and build the
  file name.  Its \<^verbatim>\<open>except\<close> clause names \<^verbatim>\<open>JSONDecodeError\<close> and \<^verbatim>\<open>KeyError\<close>; any other
  exception leaves the function.
\<close>

definition parse_request :: "world \<Rightarrow> message list \<Rightarrow> py_error + (json \<times> json \<times> string)" where
  "parse_request w inp =
     (case first_content inp of
        Inl e \<Rightarrow> Inl e
      | Inr content \<Rightarrow>
          (case json_loads w content of
             Inl msg \<Rightarrow> Inl (JSONDecodeError msg)
           | Inr request_data \<Rightarrow>
               (case subscript request_data ''book_title'' of
                  Inl e \<Rightarrow> Inl e
                | Inr book_title \<Rightarrow>
                    (case subscript request_data ''query'' of
                       Inl e \<Rightarrow> Inl e
                     | Inr query \<Rightarrow>
                         Inr (book_title, query,
                              path_join (path_join (module_dir w) ''data'')
                                (py_str book_title @ ''.txt''))))))"

definition invalid_input_message :: "string \<Rightarrow> string" where
  "invalid_input_message e =
     ''Invalid input format. Please provide a JSON string with 'book_title' and 'query'. Error: ''
     @ e"

definition available_books :: "world \<Rightarrow> string list" where
  "available_books w =
     (let data_dir = path_join (module_dir w) ''data''
      in if isdir w data_dir
         then map splitext_root (filter (\<lambda>f. endswith f ''.txt'') (listdir w data_dir))
         else [])"

definition not_found_message :: "string \<Rightarrow> string list \<Rightarrow> string" where
  "not_found_message book_title available =
     ''Requested book not found: '' @ [squote] @ book_title @ [squote] @ ''. ''
     @ ''Ensure the 'book_title' matches one of: '' @ str_join '', '' available"

definition archivist_agent :: "world \<Rightarrow> message list \<Rightarrow> py_error + message list" where
  "archivist_agent w inp =
     (case parse_request w inp of
        Inl (JSONDecodeError msg) \<Rightarrow> Inr [[invalid_input_message msg]]
      | Inl (KeyError key) \<Rightarrow> Inr [[invalid_input_message (repr_str key)]]
      | Inl e \<Rightarrow> Inl e
      | Inr (book_title, query, filename) \<Rightarrow>
          if \<not> isfile w filename then
            (let available = available_books w
             in case book_title of
                  JStr title \<Rightarrow> Inr [[not_found_message title available]]
                | _ \<Rightarrow> Inl TypeError)
          else
            (case crew_kickoff w filename book_title query of
               Inl e \<Rightarrow> Inl e
             | Inr task_output \<Rightarrow> Inr [[task_output]]))"

section \<open>The router (smolagents\_server.py)\<close>

text \<open>
  The tool \<^verbatim>\<open>archivist_agent\<close> of the router, which calls the archivist server; its whole body
  is inside \<^verbatim>\<open>try ... except Exception\<close>.
\<close>

definition archivist_agent_tool :: "world \<Rightarrow> string \<Rightarrow> py_error + string" where
  "archivist_agent_tool w inp =
     (case run_sync w ''http://127.0.0.1:8001'' ''archivist_agent'' inp of
        Raised e \<Rightarrow> Inr (''Error communicating with Archivist agent: '' @ e)
      | Completed r \<Rightarrow>
          (case output_content r of
             Some content \<Rightarrow> Inr content
           | None \<Rightarrow> Inr ''Archivist returned no content.''))"

definition USE_MCP :: "world \<Rightarrow> bool" where
  "USE_MCP w =
     ((case getenv w ''USE_MCP_DISCOVERY'' of None \<Rightarrow> ''0'' | Some v \<Rightarrow> v)
        \<in> set [''1'', ''true'', ''True''])"

definition scan_books_critic :: "world \<Rightarrow> string list" where
  "scan_books_critic w =
     (let DATA_DIR = path_join (module_dir w) ''data''
      in if \<not> isdir w DATA_DIR then []
         else map splitext_root
                (filter (\<lambda>f. endswith f ''.txt'' \<and> isfile w (path_join DATA_DIR f))
                   (listdir w DATA_DIR)))"

definition load_metadata_critic :: "world \<Rightarrow> json" where
  "load_metadata_critic w =
     (case load_json_file w (path_join (module_dir w) ''book_metadata.json'') of
        Some v \<Rightarrow> v
      | None \<Rightarrow> JObj [])"

text \<open>
  \<^verbatim>\<open>list_available_books\<close> and \<^verbatim>\<open>get_book_metadata\<close>, in both branches of \<^verbatim>\<open>USE_MCP\<close>.  With the
  catalog service, whatever \<^verbatim>\<open>json.loads\<close> makes of the first output part is returned; any
  exception, and a run without output, falls back to the local value.
\<close>

definition list_available_books :: "world \<Rightarrow> json" where
  "list_available_books w =
     (let fallback = JArr (map JStr (scan_books_critic w))
      in if USE_MCP w then
           (case run_sync w ''http://127.0.0.1:8003'' ''book_catalog_agent'' ''__LIST__'' of
              Raised e \<Rightarrow> fallback
            | Completed r \<Rightarrow>
                (case output_content r of
                   None \<Rightarrow> fallback
                 | Some content \<Rightarrow>
                     (case json_loads w content of
                        Inl msg \<Rightarrow> fallback
                      | Inr v \<Rightarrow> v)))
         else fallback)"

definition get_book_metadata :: "world \<Rightarrow> string \<Rightarrow> py_error + json" where
  "get_book_metadata w book_key =
     (let fallback = dict_get (load_metadata_critic w) book_key
      in if USE_MCP w then
           (case run_sync w ''http://127.0.0.1:8003'' ''book_catalog_agent''
                   (''__META__:'' @ book_key) of
              Raised e \<Rightarrow> fallback
            | Completed r \<Rightarrow>
                (case output_content r of
                   None \<Rightarrow> fallback
                 | Some content \<Rightarrow>
                     (case json_loads w content of
                        Inl msg \<Rightarrow> fallback
                      | Inr v \<Rightarrow> Inr v)))
         else fallback)"

text \<open>
  \<^verbatim>\<open>"\n- ".join(sorted(books))\<close> on a value that is true: a list of strings is sorted and
  joined; a dict gives its keys and a string its characters; a list with an element that is
  not a string raises \<^verbatim>\<open>TypeError\<close> in \<^verbatim>\<open>sorted\<close> or in \<^verbatim>\<open>join\<close>, and so does a number.
\<close>

fun str_items :: "json list \<Rightarrow> string list option" where
  "str_items [] = Some []"
| "str_items (JStr s # xs) = map_option ((#) s) (str_items xs)"
| "str_items (_ # xs) = None"

definition sorted_books :: "json \<Rightarrow> py_error + string list" where
  "sorted_books books =
     (case books of
        JArr xs \<Rightarrow>
          (case str_items xs of
             Some ks \<Rightarrow> Inr (sort ks)
           | None \<Rightarrow> Inl TypeError)
      | JObj kvs \<Rightarrow> Inr (sort (map fst kvs))
      | JStr s \<Rightarrow> Inr (sort (map (\<lambda>c. [c]) s))
      | _ \<Rightarrow> Inl TypeError)"

definition fast_path :: "string \<Rightarrow> bool" where
  "fast_path prompt =
     (let lc = lower prompt
      in (contains lc ''book'' \<or> contains lc ''library'')
         \<and> (contains lc ''list'' \<or> contains lc ''available'' \<or> contains lc ''have''))"

definition no_books_message :: string where
  "no_books_message =
     ''No books found in the library. Add .txt files to the ai_librarian/data/ folder.''"

definition listing_message :: "string list \<Rightarrow> string" where
  "listing_message sorted_keys =
     ''Available books (use these keys):'' @ [newline] @ ''- ''
     @ str_join ([newline] @ ''- '') sorted_keys"

text \<open>
  The decorator \<^verbatim>\<open>@smoltool\<close> builds the schema of a tool from the signature and the docstring
  of the function and raises \<^verbatim>\<open>DocstringParsingException\<close> when a parameter has no description
  in the \<^verbatim>\<open>Args:\<close> section of the docstring.  It is given here the name of the function, its
  parameters and the parameters its docstring describes.
\<close>

definition smoltool :: "string \<Rightarrow> string list \<Rightarrow> string list \<Rightarrow> py_error + unit" where
  "smoltool name params described =
     (if list_all (\<lambda>p. p \<in> set described) params then Inr ()
      else Inl (DocstringParsingException name))"

text \<open>
  The tools that \<^verbatim>\<open>literary_critic_agent\<close> defines on every request, before it reads the prompt:
  \<^verbatim>\<open>list_available_books\<close> and \<^verbatim>\<open>get_book_metadata\<close> of the branch of \<^verbatim>\<open>USE_MCP\<close>, then
  \<^verbatim>\<open>historian_agent_tool\<close>.  The docstring of \<^verbatim>\<open>get_book_metadata\<close> describes \<^verbatim>\<open>book_key\<close> in the
  local branch only: in the branch of the catalog service it is a single line.
\<close>

definition define_tools :: "world \<Rightarrow> py_error + unit" where
  "define_tools w =
     (case (if USE_MCP w then
              (case smoltool ''list_available_books'' [] [] of
                 Inl e \<Rightarrow> Inl e
               | Inr u \<Rightarrow> smoltool ''get_book_metadata'' [''book_key''] [])
            else
              (case smoltool ''list_available_books'' [] [] of
                 Inl e \<Rightarrow> Inl e
               | Inr u \<Rightarrow> smoltool ''get_book_metadata'' [''book_key''] [''book_key''])) of
        Inl e \<Rightarrow> Inl e
      | Inr u \<Rightarrow> smoltool ''historian_agent_tool'' [''query''] [''query''])"

text \<open>
  \<^verbatim>\<open>literary_critic_agent\<close>.  The result records, next to the reply, the prompts on which the
  reasoning agent was run (\<^verbatim>\<open>agent.run\<close>).
\<close>

record routed =
  agent_runs :: "string list"
  reply :: "py_error + message list"

definition literary_critic_agent :: "world \<Rightarrow> message list \<Rightarrow> routed" where
  "literary_critic_agent w inp =
     (case define_tools w of
        Inl e \<Rightarrow> \<lparr>agent_runs = [], reply = Inl e\<rparr>
      | Inr u \<Rightarrow>
          (case first_content inp of
             Inl e \<Rightarrow> \<lparr>agent_runs = [], reply = Inl e\<rparr>
           | Inr prompt \<Rightarrow>
               if fast_path prompt then
                 (let books = list_available_books w
                  in if \<not> truthy books then
                       \<lparr>agent_runs = [], reply = Inr [[no_books_message]]\<rparr>
                     else
                       (case sorted_books books of
                          Inl e \<Rightarrow> \<lparr>agent_runs = [], reply = Inl e\<rparr>
                        | Inr ks \<Rightarrow> \<lparr>agent_runs = [], reply = Inr [[listing_message ks]]\<rparr>))
               else
                 (case agent_run w prompt of
                    Inl e \<Rightarrow> \<lparr>agent_runs = [prompt], reply = Inl e\<rparr>
                  | Inr response \<Rightarrow> \<lparr>agent_runs = [prompt], reply = Inr [[response]]\<rparr>)))"

section \<open>The interactive client (main.py)\<close>

definition AGENTS :: "(string \<times> string \<times> string) list" where
  "AGENTS =
     [(''critic'', ''http://127.0.0.1:8002'', ''literary_critic_agent''),
      (''archivist'', ''http://127.0.0.1:8001'', ''archivist_agent''),
      (''catalog'', ''http://127.0.0.1:8003'', ''book_catalog_server'')]"

definition ALIASES :: "(string \<times> string) list" where
  "ALIASES =
     [(''pride and prejudice'', ''prideandprejudice''),
      (''pride & prejudice'', ''prideandprejudice''),
      (''prideand predjudice'', ''prideandprejudice'')]"

definition normalize_key :: "string \<Rightarrow> string" where
  "normalize_key user_key =
     (let k = lower (strip user_key)
      in case map_of ALIASES k of Some canonical \<Rightarrow> canonical | None \<Rightarrow> k)"

definition load_metadata_main :: "world \<Rightarrow> json" where
  "load_metadata_main w =
     (case load_json_file w (path_join (module_dir w) ''book_metadata.json'') of
        Some v \<Rightarrow> v
      | None \<Rightarrow> JObj [])"

text \<open>
  \<^verbatim>\<open>call_agent\<close> has no exception handler: what the client library raises leaves the function.
\<close>

definition call_agent :: "world \<Rightarrow> string \<Rightarrow> string \<Rightarrow> string \<Rightarrow> py_error + string" where
  "call_agent w base_url agent_name content =
     (case run_sync w base_url agent_name content of
        Raised e \<Rightarrow> Inl (ClientError e)
      | Completed r \<Rightarrow>
          (case output_content r of
             Some c \<Rightarrow> Inr c
           | None \<Rightarrow>
               (case run_error r of
                  Some err \<Rightarrow> Inr (''[ERROR] '' @ err)
                | None \<Rightarrow> Inr ''[EMPTY RESPONSE]'')))"

text \<open>
  The state of the loop: the active agent, the lines still to be typed and everything written
  to the terminal so far (\<^verbatim>\<open>print\<close> writes its text and a newline, \<^verbatim>\<open>input\<close> writes its prompt).
  \<^verbatim>\<open>AGENTS[name]\<close> raises \<^verbatim>\<open>KeyError\<close> on a name that is not configured.
\<close>

record cli =
  current :: string
  stdin :: "string list"
  stdout :: "string list"

definition print :: "string \<Rightarrow> cli \<Rightarrow> cli" where
  "print text s = s\<lparr>stdout := stdout s @ [text @ [newline]]\<rparr>"

definition agents_get :: "string \<Rightarrow> py_error + (string \<times> string)" where
  "agents_get name =
     (case map_of AGENTS name of Some v \<Rightarrow> Inr v | None \<Rightarrow> Inl (KeyError name))"

definition print_banner :: "string \<Rightarrow> cli \<Rightarrow> py_error + cli" where
  "print_banner cur s =
     (let s1 = fold print
                 [[newline] @ ''AI Librarian CLI (ACP Protocol Demo)'',
                  ''----------------------------------'',
                  ''Commands:'',
                  ''  /agents                List available agents'',
                  ''  /use <agent>          Switch active agent (critic | archivist | catalog)'',
                  ''  /list                 List available books (via critic or catalog)'',
                  ''  /meta <book_key>      Show metadata for a book (from book_metadata.json)'',
                  ''  /help                 Show help'',
                  ''  /exit                 Quit''] s
      in case agents_get cur of
           Inl e \<Rightarrow> Inl e
         | Inr (url, agent_name) \<Rightarrow>
             Inr (print ([newline] @ ''Active agent: '' @ cur @ '' -> '' @ agent_name
                         @ '' @ '' @ url) s1))"

definition handle_agents :: "cli \<Rightarrow> cli" where
  "handle_agents s =
     fold (\<lambda>(k, url, name). print (''- '' @ k @ '': '' @ name @ '' @ '' @ url)) AGENTS s"

definition handle_use :: "string \<Rightarrow> cli \<Rightarrow> py_error + cli" where
  "handle_use user_input s =
     (let name = lower (strip (partition_space_2 user_input))
      in if name \<in> set (map fst AGENTS) then
           (let s1 = s\<lparr>current := name\<rparr>
            in case agents_get (current s1) of
                 Inl e \<Rightarrow> Inl e
               | Inr (url, agent_name) \<Rightarrow>
                   Inr (print (''Switched to '' @ [squote] @ current s1 @ [squote] @ '' -> ''
                               @ agent_name @ '' @ '' @ url) s1))
         else
           Inr (print (''Unknown agent '' @ [squote] @ name @ [squote] @ ''. Try one of: ''
                       @ str_join '', '' (map fst AGENTS)) s))"

text \<open>\<^verbatim>\<open>load_metadata().get(key)\<close>: \<^verbatim>\<open>None\<close> for a missing key.\<close>

definition handle_meta :: "world \<Rightarrow> string \<Rightarrow> cli \<Rightarrow> py_error + cli" where
  "handle_meta w user_input s =
     (let key = normalize_key (partition_space_2 user_input)
      in case load_metadata_main w of
           JObj kvs \<Rightarrow>
             (let meta = (case map_of kvs key of Some v \<Rightarrow> v | None \<Rightarrow> JNull)
              in if \<not> truthy meta
                 then Inr (print (''No metadata found for '' @ [squote] @ key @ [squote] @ ''.'') s)
                 else Inr (print (json_dumps_indent 0 meta) s))
         | _ \<Rightarrow> Inl AttributeError)"

definition request_response :: "world \<Rightarrow> string \<Rightarrow> string \<Rightarrow> string \<Rightarrow> cli \<Rightarrow> py_error + cli" where
  "request_response w url agent_name payload s =
     (let s1 = print ([newline] @ ''[Request] '' @ agent_name @ '' <= '' @ payload) s
      in case call_agent w url agent_name payload of
           Inl e \<Rightarrow> Inl e
         | Inr response \<Rightarrow> Inr (print (''[Response] '' @ response) s1))"

definition handle_list :: "world \<Rightarrow> cli \<Rightarrow> py_error + cli" where
  "handle_list w s =
     (case (if ''critic'' \<in> set (map fst AGENTS)
            then (agents_get ''critic'', ''List the available books.'')
            else (agents_get ''catalog'', ''list_available_books'')) of
        (Inl e, prompt) \<Rightarrow> Inl e
      | (Inr (url, agent_name), prompt) \<Rightarrow> request_response w url agent_name prompt s)"

text \<open>
  The question flow.  For the archivist a line that is not JSON is wrapped with a book key
  read from the terminal; that \<^verbatim>\<open>input\<close> is outside every \<^verbatim>\<open>try\<close>.
\<close>

definition handle_question :: "world \<Rightarrow> string \<Rightarrow> cli \<Rightarrow> py_error + cli" where
  "handle_question w user_input s =
     (case agents_get (current s) of
        Inl e \<Rightarrow> Inl e
      | Inr (url, agent_name) \<Rightarrow>
          if current s = ''archivist'' then
            (case json_loads w user_input of
               Inr v \<Rightarrow> request_response w url agent_name user_input s
             | Inl msg \<Rightarrow>
                 (let s1 = s\<lparr>stdout := stdout s @ [''Book key (e.g., mobydick, frankenstein): '']\<rparr>
                  in case stdin s1 of
                       [] \<Rightarrow> Inl EOFError
                     | line # rest \<Rightarrow>
                         (let book_key = normalize_key (strip line);
                              payload = json_dumps (JObj [(''book_title'', JStr book_key),
                                                          (''query'', JStr user_input)])
                          in request_response w url agent_name payload (s1\<lparr>stdin := rest\<rparr>))))
          else request_response w url agent_name user_input s)"

text \<open>One turn of the \<^verbatim>\<open>while True\<close> loop of \<^verbatim>\<open>interactive\<close>: it ends the loop or goes round.\<close>

datatype control = Continue | Break

definition interactive_step :: "world \<Rightarrow> cli \<Rightarrow> py_error + (control \<times> cli)" where
  "interactive_step w s0 =
     (let s = s0\<lparr>stdout := stdout s0 @ [[newline] @ ''> '']\<rparr>
      in case stdin s of
           [] \<Rightarrow> Inr (Break, print ([newline] @ ''Exiting...'') s)
         | line # rest \<Rightarrow>
             (let user_input = strip line;
                  s1 = s\<lparr>stdin := rest\<rparr>
              in if user_input = [] then Inr (Continue, s1)
                 else if lower user_input \<in> set [''/exit'', ''exit'', ''quit'', '':q''] then
                   Inr (Break, print ''Goodbye!'' s1)
                 else if lower user_input \<in> set [''/help'', ''help''] then
                   map_sum id (Pair Continue) (print_banner (current s1) s1)
                 else if lower user_input \<in> set [''/agents'', ''agents''] then
                   Inr (Continue, handle_agents s1)
                 else if startswith (lower user_input) ''/use '' then
                   map_sum id (Pair Continue) (handle_use user_input s1)
                 else if startswith (lower user_input) ''/meta '' then
                   map_sum id (Pair Continue) (handle_meta w user_input s1)
                 else if lower user_input \<in> set [''/list'', ''list''] then
                   map_sum id (Pair Continue) (handle_list w s1)
                 else
                   map_sum id (Pair Continue) (handle_question w user_input s1)))"

text \<open>
  The loop, on a few turns of fuel: \<^verbatim>\<open>None\<close> when the fuel runs out before the loop ends.
  Every turn that goes round has read a line, so one turn more than there are lines is enough.
\<close>

fun interactive_loop :: "nat \<Rightarrow> world \<Rightarrow> cli \<Rightarrow> (py_error + cli) option" where
  "interactive_loop 0 w s = None"
| "interactive_loop (Suc fuel) w s =
     (case interactive_step w s of
        Inl e \<Rightarrow> Some (Inl e)
      | Inr (Break, s') \<Rightarrow> Some (Inr s')
      | Inr (Continue, s') \<Rightarrow> interactive_loop fuel w s')"

definition interactive :: "world \<Rightarrow> string list \<Rightarrow> (py_error + cli) option" where
  "interactive w typed =
     (case print_banner ''critic'' \<lparr>current = ''critic'', stdin = typed, stdout = []\<rparr> of
        Inl e \<Rightarrow> Some (Inl e)
      | Inr s \<Rightarrow> interactive_loop (Suc (length typed)) w s)"

section \<open>A small library, for the examples\<close>

text \<open>
  A deployment with two books and no metadata document, whose network is down; the decoder
  knows the request texts the examples send.
\<close>

definition nonexistent_request :: json where
  "nonexistent_request = JObj [(''book_title'', JStr ''nonexistent''), (''query'', JStr ''q'')]"

definition numeric_title_request :: json where
  "numeric_title_request = JObj [(''book_title'', JInt 5), (''query'', JStr ''q'')]"

definition demo_loads :: "string \<Rightarrow> string + json" where
  "demo_loads text =
     (if text = json_dumps nonexistent_request then Inr nonexistent_request
      else if text = json_dumps (JArr []) then Inr (JArr [])
      else if text = json_dumps (JObj [(''query'', JStr ''q'')])
        then Inr (JObj [(''query'', JStr ''q'')])
      else if text = json_dumps numeric_title_request then Inr numeric_title_request
      else Inl ''Expecting value: line 1 column 1 (char 0)'')"

definition demo_world :: world where
  "demo_world =
     \<lparr>module_dir = ''/srv/librarian'',
      getenv = (\<lambda>name. None),
      isdir = (\<lambda>path. path = ''/srv/librarian/data''),
      listdir = (\<lambda>path. if path = ''/srv/librarian/data''
                         then [''mobydick.txt'', ''frankenstein.txt''] else []),
      isfile = (\<lambda>path. path \<in> set [''/srv/librarian/data/mobydick.txt'',
                                     ''/srv/librarian/data/frankenstein.txt'']),
      load_json_file = (\<lambda>path. None),
      http_get_json = (\<lambda>url. None),
      json_loads = demo_loads,
      run_sync = (\<lambda>base_url agent content. Raised ''All connection attempts failed''),
      crew_kickoff = (\<lambda>filename book_title query. Inl (CollaboratorError ''no model'')),
      agent_run = (\<lambda>prompt. Inl (CollaboratorError ''no model''))\<rparr>"

text \<open>The same deployment with a metadata document that knows one book, which has no file.\<close>

definition metadata_world :: world where
  "metadata_world =
     demo_world\<lparr>load_json_file :=
       (\<lambda>path. if path = ''/srv/librarian/book_metadata.json''
                then Some (JObj [(''dracula'', JObj [(''year'', JInt 1897)])])
                else None)\<rparr>"

text \<open>The two-book deployment with a remote metadata source configured, which is down.\<close>

definition remote_world :: world where
  "remote_world =
     demo_world\<lparr>getenv :=
       (\<lambda>name. if name = ''BOOK_METADATA_URL'' then Some ''http://meta.invalid/books.json''
                else None)\<rparr>"

text \<open>The deployment with the metadata document, the router using the catalog service.\<close>

definition mcp_world :: world where
  "mcp_world =
     metadata_world\<lparr>getenv :=
       (\<lambda>name. if name = ''USE_MCP_DISCOVERY'' then Some ''1'' else None)\<rparr>"

text \<open>The deployment with an empty content directory.\<close>

definition empty_world :: world where
  "empty_world = demo_world\<lparr>listdir := (\<lambda>path. []), isfile := (\<lambda>path. False)\<rparr>"

text \<open>A content directory whose only file is \<^verbatim>\<open>.txt\<close>, the file of the empty key.\<close>

definition hidden_world :: world where
  "hidden_world =
     demo_world\<lparr>listdir := (\<lambda>path. if path = ''/srv/librarian/data'' then [''.txt''] else []),
                isfile := (\<lambda>path. path = ''/srv/librarian/data/.txt'')\<rparr>"

section \<open>Properties of the catalog server\<close>

subsection \<open>Files, paths and prompts\<close>

lemma rfind_absent: "c \<notin> set s \<Longrightarrow> rfind s c = - 1"
  by (simp add: rfind_def)

lemma rfind_dot_txt: "rfind (k @ ''.txt'') (CHR ''.'') = int (length k)"
  by (simp add: rfind_def)

lemma splitext_root_txt:
  assumes "CHR ''/'' \<notin> set k" and "list_ex (\<lambda>c. c \<noteq> CHR ''.'') k"
  shows "splitext_root (k @ ''.txt'') = k"
proof -
  have sep: "rfind (k @ ''.txt'') (CHR ''/'') = - 1"
    using assms(1) by (simp add: rfind_absent)
  show ?thesis
    using assms(2) by (simp add: splitext_root_def sep rfind_dot_txt)
qed

lemma endswith_txt: "endswith (k @ ''.txt'') ''.txt''"
  by (simp add: endswith_def)

lemma scan_books_member:
  assumes "isdir w (DATA_DIR w)"
    and "k @ ''.txt'' \<in> set (listdir w (DATA_DIR w))"
    and "isfile w (path_join (DATA_DIR w) (k @ ''.txt''))"
    and "CHR ''/'' \<notin> set k" and "list_ex (\<lambda>c. c \<noteq> CHR ''.'') k"
  shows "k \<in> set (scan_books w)"
proof -
  have "k @ ''.txt'' \<in> set (filter (\<lambda>f. endswith f ''.txt'' \<and> isfile w (path_join (DATA_DIR w) f))
                (listdir w (DATA_DIR w)))"
    using assms(2,3) by (simp add: endswith_txt)
  then have "splitext_root (k @ ''.txt'') \<in> splitext_root `
      set (filter (\<lambda>f. endswith f ''.txt'' \<and> isfile w (path_join (DATA_DIR w) f))
                (listdir w (DATA_DIR w)))"
    by (rule imageI)
  then have "splitext_root (k @ ''.txt'') \<in> set (scan_books w)"
    using assms(1) by (simp add: scan_books_def)
  then show ?thesis
    using splitext_root_txt [OF assms(4,5)] by simp
qed

lemma first_content_or_empty_single [simp]: "first_content_or_empty ((p # ps) # ms) = p"
  by (simp add: first_content_or_empty_def)

lemma split_colon_1_meta: "split_colon_1 (''__META__:'' @ k) = Inr k"
  by (simp add: split_colon_1_def)

subsection \<open>The example deployments\<close>

lemma demo_DATA_DIR: "DATA_DIR demo_world = ''/srv/librarian/data''"
  by (simp add: DATA_DIR_def demo_world_def path_join_def endswith_def)

lemma demo_load_metadata: "load_metadata demo_world = JObj []"
  by (simp add: load_metadata_def load_local_metadata_def demo_world_def)

lemma metadata_DATA_DIR: "DATA_DIR metadata_world = ''/srv/librarian/data''"
  by (simp add: DATA_DIR_def metadata_world_def demo_world_def path_join_def endswith_def)

lemma metadata_load_metadata:
  "load_metadata metadata_world = JObj [(''dracula'', JObj [(''year'', JInt 1897)])]"
  by (simp add: load_metadata_def load_local_metadata_def LOCAL_META_PATH_def
      metadata_world_def demo_world_def path_join_def endswith_def)

lemma hidden_DATA_DIR: "DATA_DIR hidden_world = ''/srv/librarian/data''"
  by (simp add: DATA_DIR_def hidden_world_def demo_world_def path_join_def endswith_def)

lemma hidden_load_metadata: "load_metadata hidden_world = JObj []"
  by (simp add: load_metadata_def load_local_metadata_def hidden_world_def demo_world_def)

lemma hidden_scan_books: "scan_books hidden_world = [''.txt'']"
  by (simp add: scan_books_def hidden_DATA_DIR)
     (simp add: hidden_world_def demo_world_def path_join_def endswith_def splitext_root_def
        rfind_def)

lemma remote_world_url:
  "getenv remote_world ''BOOK_METADATA_URL'' = Some ''http://meta.invalid/books.json''"
  by (simp add: remote_world_def)

lemma remote_world_down: "http_get_json remote_world ''http://meta.invalid/books.json'' = None"
  by (simp add: remote_world_def demo_world_def)

subsection \<open>Worlds that differ in the environment only\<close>

lemma unset_url_DATA_DIR [simp]: "DATA_DIR (w\<lparr>getenv := g\<rparr>) = DATA_DIR w"
  by (simp add: DATA_DIR_def)

lemma unset_url_scan_books [simp]: "scan_books (w\<lparr>getenv := g\<rparr>) = scan_books w"
  by (simp add: scan_books_def)

lemma unset_url_local [simp]: "load_local_metadata (w\<lparr>getenv := g\<rparr>) = load_local_metadata w"
  by (simp add: load_local_metadata_def LOCAL_META_PATH_def)

lemma load_metadata_no_url:
  "load_metadata (w\<lparr>getenv := (getenv w)(''BOOK_METADATA_URL'' := None)\<rparr>)
     = load_local_metadata w"
  by (simp add: load_metadata_def)

lemma catalog_keys_cong:
  "scan_books w' = scan_books w \<Longrightarrow> catalog_keys w' m = catalog_keys w m"
  by (simp add: catalog_keys_def split: sum.splits)

lemma book_catalog_agent_cong:
  assumes "load_metadata w' = load_metadata w" and "scan_books w' = scan_books w"
  shows "book_catalog_agent w' inp = book_catalog_agent w inp"
  using assms(1) catalog_keys_cong [OF assms(2)] by (simp add: book_catalog_agent_def Let_def)

subsection \<open>The claims\<close>

text \<open>
  Claim C10.  A prompt that is neither \<^verbatim>\<open>__LIST__\<close> nor starts with \<^verbatim>\<open>__META__:\<close> is answered
  with exactly one message with the one part \<^verbatim>\<open>{}\<close>, and never with an error; the empty input
  and a first message without parts count as the empty prompt.
\<close>

theorem catalog_unrecognized_prompt:
  assumes "first_content_or_empty inp \<noteq> ''__LIST__''"
    and "\<not> startswith (first_content_or_empty inp) ''__META__:''"
  shows "book_catalog_agent w inp = Inr [[''{}'']]"
  using assms by (simp add: book_catalog_agent_def Let_def)

theorem catalog_unrecognized_prompt_witness:
  "first_content_or_empty [] \<noteq> ''__LIST__'' \<and>
   \<not> startswith (first_content_or_empty []) ''__META__:'' \<and>
   book_catalog_agent demo_world [] = Inr [[''{}'']] \<and>
   book_catalog_agent demo_world [[''list the books'']] = Inr [[''{}'']]"
proof -
  have a: "first_content_or_empty [] \<noteq> ''__LIST__''"
    by (simp add: first_content_or_empty_def)
  have b: "\<not> startswith (first_content_or_empty []) ''__META__:''"
    by (simp add: first_content_or_empty_def)
  have c: "first_content_or_empty [[''list the books'']] \<noteq> ''__LIST__''"
    by (simp add: first_content_or_empty_def)
  have d: "\<not> startswith (first_content_or_empty [[''list the books'']]) ''__META__:''"
    by (simp add: first_content_or_empty_def)
  show ?thesis
    using a b catalog_unrecognized_prompt [OF a b, of demo_world]
      catalog_unrecognized_prompt [OF c d, of demo_world]
    by simp
qed

text \<open>
  Claim C1, as amended.  Let \<^verbatim>\<open>k.txt\<close> be a file of the content directory and \<^verbatim>\<open>k\<close> no key of the
  metadata mapping.  Then \<^verbatim>\<open>__META__:k\<close> is answered with the empty object.  When the mapping is
  empty, \<^verbatim>\<open>__LIST__\<close> answers with the sorted directory scan, of which \<^verbatim>\<open>k\<close> is a member provided
  \<^verbatim>\<open>k\<close> has a character other than a dot (a directory entry has no slash in its name).  When the
  mapping is not empty, \<^verbatim>\<open>__LIST__\<close> answers with the sorted keys of the mapping and nothing else,
  so \<^verbatim>\<open>k\<close> is not listed.
\<close>

theorem catalog_unlisted_file:
  assumes "load_metadata w = JObj kvs"
    and "k \<notin> fst ` set kvs"
    and "isdir w (DATA_DIR w)"
    and "k @ ''.txt'' \<in> set (listdir w (DATA_DIR w))"
    and "isfile w (path_join (DATA_DIR w) (k @ ''.txt''))"
  shows "book_catalog_agent w [[''__META__:'' @ k]] = Inr [[''{}'']] \<and>
         (kvs = [] \<and> CHR ''/'' \<notin> set k \<and> list_ex (\<lambda>c. c \<noteq> CHR ''.'') k \<longrightarrow>
            catalog_keys w (load_metadata w) = Inr (scan_books w) \<and>
            k \<in> set (scan_books w) \<and>
            book_catalog_agent w [[''__LIST__'']]
              = Inr [[json_dumps (JArr (map JStr (sort (scan_books w))))]]) \<and>
         (kvs \<noteq> [] \<longrightarrow>
            catalog_keys w (load_metadata w) = Inr (map fst kvs) \<and>
            k \<notin> set (map fst kvs) \<and>
            book_catalog_agent w [[''__LIST__'']]
              = Inr [[json_dumps (JArr (map JStr (sort (map fst kvs))))]])"
proof -
  have absent: "map_of kvs k = None"
    using assms(2) by (simp add: map_of_eq_None_iff)
  have meta: "book_catalog_agent w [[''__META__:'' @ k]] = Inr [[''{}'']]"
    using assms(1) absent
    by (simp add: book_catalog_agent_def split_colon_1_def dict_get_def)
  have list: "catalog_keys w (load_metadata w) = Inr (scan_books w) \<and>
      k \<in> set (scan_books w) \<and>
      book_catalog_agent w [[''__LIST__'']]
        = Inr [[json_dumps (JArr (map JStr (sort (scan_books w))))]]"
    if "kvs = []" and "CHR ''/'' \<notin> set k" and "list_ex (\<lambda>c. c \<noteq> CHR ''.'') k"
  proof -
    have keys: "catalog_keys w (load_metadata w) = Inr (scan_books w)"
      using assms(1) that(1) by (simp add: catalog_keys_def dict_keys_def)
    have mem: "k \<in> set (scan_books w)"
      using scan_books_member [OF assms(3,4,5) that(2,3)] .
    have "book_catalog_agent w [[''__LIST__'']]
        = Inr [[json_dumps (JArr (map JStr (sort (scan_books w))))]]"
      using keys by (simp add: book_catalog_agent_def)
    with keys mem show ?thesis by simp
  qed
  have listed: "catalog_keys w (load_metadata w) = Inr (map fst kvs) \<and>
      k \<notin> set (map fst kvs) \<and>
      book_catalog_agent w [[''__LIST__'']]
        = Inr [[json_dumps (JArr (map JStr (sort (map fst kvs))))]]"
    if "kvs \<noteq> []"
  proof -
    have keys: "catalog_keys w (load_metadata w) = Inr (map fst kvs)"
      using assms(1) that by (simp add: catalog_keys_def dict_keys_def)
    have "book_catalog_agent w [[''__LIST__'']]
        = Inr [[json_dumps (JArr (map JStr (sort (map fst kvs))))]]"
      using keys by (simp add: book_catalog_agent_def)
    with keys assms(2) show ?thesis by simp
  qed
  from meta list listed show ?thesis by blast
qed

theorem catalog_unlisted_file_witness:
  "book_catalog_agent demo_world [[''__META__:mobydick'']] = Inr [[''{}'']] \<and>
   ''mobydick'' \<in> set (scan_books demo_world) \<and>
   book_catalog_agent demo_world [[''__LIST__'']]
     = Inr [[json_dumps (JArr [JStr ''frankenstein'', JStr ''mobydick''])]] \<and>
   book_catalog_agent metadata_world [[''__META__:mobydick'']] = Inr [[''{}'']] \<and>
   catalog_keys metadata_world (load_metadata metadata_world) = Inr [''dracula''] \<and>
   book_catalog_agent metadata_world [[''__LIST__'']]
     = Inr [[json_dumps (JArr [JStr ''dracula''])]]"
proof -
  have 1: "load_metadata demo_world = JObj []" by (rule demo_load_metadata)
  have 2: "''mobydick'' \<notin> fst ` set ([] :: (string \<times> json) list)" by simp
  have 3: "isdir demo_world (DATA_DIR demo_world)"
    by (simp add: demo_DATA_DIR) (simp add: demo_world_def)
  have 4: "''mobydick'' @ ''.txt'' \<in> set (listdir demo_world (DATA_DIR demo_world))"
    by (simp add: demo_DATA_DIR) (simp add: demo_world_def)
  have 5: "isfile demo_world (path_join (DATA_DIR demo_world) (''mobydick'' @ ''.txt''))"
    by (simp add: demo_DATA_DIR) (simp add: demo_world_def path_join_def endswith_def)
  have scan: "scan_books demo_world = [''mobydick'', ''frankenstein'']"
    by (simp add: scan_books_def demo_DATA_DIR)
       (simp add: demo_world_def path_join_def endswith_def splitext_root_def rfind_def)
  have m1: "load_metadata metadata_world = JObj [(''dracula'', JObj [(''year'', JInt 1897)])]"
    by (rule metadata_load_metadata)
  have m2: "''mobydick'' \<notin> fst ` set [(''dracula'', JObj [(''year'', JInt 1897)])]" by simp
  have m3: "isdir metadata_world (DATA_DIR metadata_world)"
    by (simp add: metadata_DATA_DIR) (simp add: metadata_world_def demo_world_def)
  have m4: "''mobydick'' @ ''.txt'' \<in> set (listdir metadata_world (DATA_DIR metadata_world))"
    by (simp add: metadata_DATA_DIR) (simp add: metadata_world_def demo_world_def)
  have m5: "isfile metadata_world (path_join (DATA_DIR metadata_world) (''mobydick'' @ ''.txt''))"
    by (simp add: metadata_DATA_DIR)
       (simp add: metadata_world_def demo_world_def path_join_def endswith_def)
  show ?thesis
    using catalog_unlisted_file [OF 1 2 3 4 5] catalog_unlisted_file [OF m1 m2 m3 m4 m5]
    by (simp add: scan metadata_load_metadata)
qed

text \<open>
  The claim as it was stated fails in two ways.  With a metadata document that knows only
  \<^verbatim>\<open>dracula\<close>, the file \<^verbatim>\<open>mobydick.txt\<close> exists and \<^verbatim>\<open>__LIST__\<close> answers \<^verbatim>\<open>["dracula"]\<close>.  With no
  metadata and the single file \<^verbatim>\<open>.txt\<close>, the file of the empty key, the scan lists \<^verbatim>\<open>.txt\<close>, since
  \<^verbatim>\<open>splitext\<close> takes a leading dot for a part of the name.
\<close>

theorem catalog_unlisted_file_counterexample:
  "load_metadata metadata_world = JObj [(''dracula'', JObj [(''year'', JInt 1897)])] \<and>
   ''mobydick'' \<notin> set (map fst [(''dracula'', JObj [(''year'', JInt 1897)])]) \<and>
   isdir metadata_world (DATA_DIR metadata_world) \<and>
   ''mobydick.txt'' \<in> set (listdir metadata_world (DATA_DIR metadata_world)) \<and>
   isfile metadata_world (path_join (DATA_DIR metadata_world) ''mobydick.txt'') \<and>
   catalog_keys metadata_world (load_metadata metadata_world) = Inr [''dracula''] \<and>
   book_catalog_agent metadata_world [[''__LIST__'']]
     = Inr [[json_dumps (JArr [JStr ''dracula''])]] \<and>
   ''mobydick'' \<notin> set [''dracula''] \<and>
   load_metadata hidden_world = JObj [] \<and>
   '''' @ ''.txt'' \<in> set (listdir hidden_world (DATA_DIR hidden_world)) \<and>
   isfile hidden_world (path_join (DATA_DIR hidden_world) ('''' @ ''.txt'')) \<and>
   catalog_keys hidden_world (load_metadata hidden_world) = Inr [''.txt''] \<and>
   '''' \<notin> set [''.txt'']"
proof -
  have keys: "catalog_keys metadata_world (load_metadata metadata_world) = Inr [''dracula'']"
    by (simp add: metadata_load_metadata catalog_keys_def dict_keys_def)
  have list: "book_catalog_agent metadata_world [[''__LIST__'']]
     = Inr [[json_dumps (JArr [JStr ''dracula''])]]"
    unfolding book_catalog_agent_def Let_def keys by simp
  have files: "isdir metadata_world (DATA_DIR metadata_world) \<and>
      ''mobydick.txt'' \<in> set (listdir metadata_world (DATA_DIR metadata_world)) \<and>
      isfile metadata_world (path_join (DATA_DIR metadata_world) ''mobydick.txt'')"
    by (simp add: metadata_DATA_DIR)
       (simp add: metadata_world_def demo_world_def path_join_def endswith_def)
  have hkeys: "catalog_keys hidden_world (load_metadata hidden_world) = Inr [''.txt'']"
    by (simp add: hidden_load_metadata catalog_keys_def dict_keys_def hidden_scan_books)
  have hfiles: "'''' @ ''.txt'' \<in> set (listdir hidden_world (DATA_DIR hidden_world)) \<and>
      isfile hidden_world (path_join (DATA_DIR hidden_world) ('''' @ ''.txt''))"
    by (simp add: hidden_DATA_DIR)
       (simp add: hidden_world_def demo_world_def path_join_def endswith_def)
  show ?thesis
    using keys list files hkeys hfiles
    by (simp add: metadata_load_metadata hidden_load_metadata)
qed

text \<open>
  Claim C5.  When a remote metadata source is configured and fetching it fails, the metadata
  is the local document's, the keys are resolved from the local document or else the directory
  scan, and every prompt is answered exactly as if no remote source were configured.
\<close>

theorem catalog_remote_unreachable:
  assumes "getenv w ''BOOK_METADATA_URL'' = Some url"
    and "http_get_json w url = None"
  shows "load_metadata w = load_local_metadata w \<and>
         catalog_keys w (load_metadata w)
           = (case dict_keys (load_local_metadata w) of
                Inl e \<Rightarrow> Inl e
              | Inr ks \<Rightarrow> Inr (if ks \<noteq> [] then ks else scan_books w)) \<and>
         book_catalog_agent w inp
           = book_catalog_agent (w\<lparr>getenv := (getenv w)(''BOOK_METADATA_URL'' := None)\<rparr>) inp"
proof -
  have local: "load_metadata w = load_local_metadata w"
    using assms by (simp add: load_metadata_def)
  have same: "load_metadata (w\<lparr>getenv := (getenv w)(''BOOK_METADATA_URL'' := None)\<rparr>)
      = load_metadata w"
    by (simp add: load_metadata_no_url local)
  have "book_catalog_agent (w\<lparr>getenv := (getenv w)(''BOOK_METADATA_URL'' := None)\<rparr>) inp
      = book_catalog_agent w inp"
    by (rule book_catalog_agent_cong [OF same]) simp
  then show ?thesis
    by (simp add: local catalog_keys_def)
qed

theorem catalog_remote_unreachable_witness:
  "load_metadata remote_world = JObj [] \<and>
   book_catalog_agent remote_world [[''__LIST__'']]
     = book_catalog_agent
         (remote_world\<lparr>getenv := (getenv remote_world)(''BOOK_METADATA_URL'' := None)\<rparr>)
         [[''__LIST__'']]"
proof -
  have "load_local_metadata remote_world = JObj []"
    by (simp add: load_local_metadata_def remote_world_def demo_world_def)
  then show ?thesis
    using catalog_remote_unreachable [OF remote_world_url remote_world_down, of "[[''__LIST__'']]"]
    by simp
qed

section \<open>Properties of the router\<close>

subsection \<open>The tools\<close>

text \<open>
  With the catalog service selected, the decorator of \<^verbatim>\<open>get_book_metadata\<close> raises, so the
  router answers no request in that mode; without it the three tools are defined.
\<close>

lemma define_tools_local: "\<not> USE_MCP w \<Longrightarrow> define_tools w = Inr ()"
  by (simp add: define_tools_def smoltool_def)

lemma define_tools_mcp:
  "USE_MCP w \<Longrightarrow> define_tools w = Inl (DocstringParsingException ''get_book_metadata'')"
  by (simp add: define_tools_def smoltool_def)

lemma scan_books_critic_eq: "scan_books_critic w = scan_books w"
  by (simp add: scan_books_critic_def scan_books_def DATA_DIR_def Let_def)

lemma list_available_books_local:
  "\<not> USE_MCP w \<Longrightarrow> list_available_books w = JArr (map JStr (scan_books w))"
  by (simp add: list_available_books_def scan_books_critic_eq)

lemma list_available_books_down:
  "run_sync w ''http://127.0.0.1:8003'' ''book_catalog_agent'' ''__LIST__'' = Raised e \<Longrightarrow>
   list_available_books w = JArr (map JStr (scan_books w))"
  by (simp add: list_available_books_def scan_books_critic_eq Let_def)

lemma str_items_strings: "str_items (map JStr ks) = Some ks"
  by (induction ks) simp_all

lemma sorted_books_strings: "sorted_books (JArr (map JStr ks)) = Inr (sort ks)"
  by (simp add: sorted_books_def str_items_strings)

subsection \<open>The example deployments\<close>

lemma demo_not_USE_MCP: "\<not> USE_MCP demo_world"
  by (simp add: USE_MCP_def demo_world_def)

lemma fast_path_example: "fast_path ''What books are available in the library?''"
  by (simp add: fast_path_def lower_def lower_char_def)

lemma demo_run_sync:
  "run_sync demo_world base_url agent content = Raised ''All connection attempts failed''"
  by (simp add: demo_world_def)

lemma demo_scan_books: "scan_books demo_world = [''mobydick'', ''frankenstein'']"
  by (simp add: scan_books_def demo_DATA_DIR)
     (simp add: demo_world_def path_join_def endswith_def splitext_root_def rfind_def)

lemma empty_not_USE_MCP: "\<not> USE_MCP empty_world"
  by (simp add: USE_MCP_def empty_world_def demo_world_def)

lemma empty_scan_books: "scan_books empty_world = []"
  by (simp add: scan_books_def empty_world_def demo_world_def)

lemma metadata_not_USE_MCP: "\<not> USE_MCP metadata_world"
  by (simp add: USE_MCP_def metadata_world_def demo_world_def)

lemma metadata_run_sync:
  "run_sync metadata_world base_url agent content = Raised ''All connection attempts failed''"
  by (simp add: metadata_world_def demo_world_def)

lemma metadata_scan_books: "scan_books metadata_world = [''mobydick'', ''frankenstein'']"
  by (simp add: scan_books_def metadata_DATA_DIR)
     (simp add: metadata_world_def demo_world_def path_join_def endswith_def splitext_root_def
        rfind_def)

lemma mcp_DATA_DIR: "DATA_DIR mcp_world = ''/srv/librarian/data''"
  by (simp add: DATA_DIR_def mcp_world_def metadata_world_def demo_world_def path_join_def
      endswith_def)

lemma mcp_scan_books: "scan_books mcp_world = [''mobydick'', ''frankenstein'']"
  by (simp add: scan_books_def mcp_DATA_DIR)
     (simp add: mcp_world_def metadata_world_def demo_world_def path_join_def endswith_def
        splitext_root_def rfind_def)

lemma mcp_load_metadata:
  "load_metadata mcp_world = JObj [(''dracula'', JObj [(''year'', JInt 1897)])]"
  by (simp add: load_metadata_def load_local_metadata_def LOCAL_META_PATH_def mcp_world_def
      metadata_world_def demo_world_def path_join_def endswith_def)

lemma mcp_run_sync:
  "run_sync mcp_world base_url agent content = Raised ''All connection attempts failed''"
  by (simp add: mcp_world_def metadata_world_def demo_world_def)

lemma mcp_USE_MCP: "USE_MCP mcp_world"
  by (simp add: USE_MCP_def mcp_world_def)

subsection \<open>The claims\<close>

text \<open>
  Claim C3, as amended.  When the call to the catalog service raises, \<^verbatim>\<open>list_available_books\<close>
  returns the directory scan.  The catalog store, whose metadata mapping has the keys \<^verbatim>\<open>ks\<close>,
  resolves \<^verbatim>\<open>ks\<close> when there is one and the directory scan when there is none.  So the two key
  sets are the same exactly when the mapping has no keys or has the scanned keys.
\<close>

theorem list_available_books_catalog_down:
  assumes "run_sync w ''http://127.0.0.1:8003'' ''book_catalog_agent'' ''__LIST__'' = Raised e"
    and "dict_keys (load_metadata w) = Inr ks"
  shows "\<exists>keys. list_available_books w = JArr (map JStr (scan_books w)) \<and>
           catalog_keys w (load_metadata w) = Inr keys \<and>
           keys = (if ks \<noteq> [] then ks else scan_books w) \<and>
           (set (scan_books w) = set keys \<longleftrightarrow> ks = [] \<or> set ks = set (scan_books w))"
proof -
  have books: "list_available_books w = JArr (map JStr (scan_books w))"
    using assms(1) by (rule list_available_books_down)
  have keys: "catalog_keys w (load_metadata w) = Inr (if ks \<noteq> [] then ks else scan_books w)"
    using assms(2) by (simp add: catalog_keys_def)
  have "set (scan_books w) = set (if ks \<noteq> [] then ks else scan_books w)
      \<longleftrightarrow> ks = [] \<or> set ks = set (scan_books w)"
    by auto
  with books keys show ?thesis by blast
qed

theorem list_available_books_catalog_down_witness:
  "USE_MCP mcp_world \<and>
   list_available_books mcp_world = JArr [JStr ''mobydick'', JStr ''frankenstein''] \<and>
   catalog_keys mcp_world (load_metadata mcp_world) = Inr [''dracula''] \<and>
   list_available_books demo_world = JArr [JStr ''mobydick'', JStr ''frankenstein''] \<and>
   catalog_keys demo_world (load_metadata demo_world) = Inr [''mobydick'', ''frankenstein'']"
proof -
  have m: "dict_keys (load_metadata mcp_world) = Inr [''dracula'']"
    by (simp add: mcp_load_metadata dict_keys_def)
  have d: "dict_keys (load_metadata demo_world) = Inr []"
    by (simp add: demo_load_metadata dict_keys_def)
  show ?thesis
    using list_available_books_catalog_down [OF mcp_run_sync m]
      list_available_books_catalog_down [OF demo_run_sync d] mcp_USE_MCP
    by (simp add: mcp_scan_books demo_scan_books)
qed

text \<open>
  As stated the claim fails, in the mode in which the router answers requests: the catalog
  service is down, the metadata document knows only \<^verbatim>\<open>dracula\<close>, the router lists the two files
  of the directory and the catalog store lists \<^verbatim>\<open>dracula\<close>.
\<close>

theorem list_available_books_catalog_down_counterexample:
  "define_tools metadata_world = Inr () \<and>
   run_sync metadata_world ''http://127.0.0.1:8003'' ''book_catalog_agent'' ''__LIST__''
     = Raised ''All connection attempts failed'' \<and>
   list_available_books metadata_world = JArr [JStr ''mobydick'', JStr ''frankenstein''] \<and>
   catalog_keys metadata_world (load_metadata metadata_world) = Inr [''dracula''] \<and>
   book_catalog_agent metadata_world [[''__LIST__'']]
     = Inr [[json_dumps (JArr [JStr ''dracula''])]] \<and>
   set [''mobydick'', ''frankenstein''] \<noteq> set [''dracula'']"
proof -
  have keys: "catalog_keys metadata_world (load_metadata metadata_world) = Inr [''dracula'']"
    by (simp add: metadata_load_metadata catalog_keys_def dict_keys_def)
  have list: "book_catalog_agent metadata_world [[''__LIST__'']]
     = Inr [[json_dumps (JArr [JStr ''dracula''])]]"
    unfolding book_catalog_agent_def Let_def keys by simp
  have books: "list_available_books metadata_world
      = JArr [JStr ''mobydick'', JStr ''frankenstein'']"
    using list_available_books_local [OF metadata_not_USE_MCP]
    by (simp add: metadata_scan_books)
  show ?thesis
    using keys list books define_tools_local [OF metadata_not_USE_MCP]
    by (simp add: metadata_run_sync)
qed

text \<open>
  Claim C6 says that every prompt with a book or library noun and a listing word is answered
  without a run of the reasoning agent, with the fixed guidance message when no key is resolved
  and otherwise with the listing of all keys, sorted.  The router does so when the catalog
  service is not selected, where the keys are those of the directory scan.  With
  \<^verbatim>\<open>USE_MCP_DISCOVERY\<close> set it does not: the definition of the tool \<^verbatim>\<open>get_book_metadata\<close> raises
  before the prompt is read, and the request ends with that exception.
\<close>

theorem router_fast_path:
  assumes "fast_path prompt"
  shows "(\<not> USE_MCP w \<longrightarrow>
            literary_critic_agent w ((prompt # parts) # msgs)
              = \<lparr>agent_runs = [],
                 reply = Inr [[if scan_books w = [] then no_books_message
                               else listing_message (sort (scan_books w))]]\<rparr>) \<and>
         (USE_MCP w \<longrightarrow>
            literary_critic_agent w ((prompt # parts) # msgs)
              = \<lparr>agent_runs = [],
                 reply = Inl (DocstringParsingException ''get_book_metadata'')\<rparr>)"
proof (intro conjI impI)
  assume local: "\<not> USE_MCP w"
  show "literary_critic_agent w ((prompt # parts) # msgs)
      = \<lparr>agent_runs = [],
         reply = Inr [[if scan_books w = [] then no_books_message
                       else listing_message (sort (scan_books w))]]\<rparr>"
    using assms
    by (simp add: literary_critic_agent_def define_tools_local [OF local] first_content_def
        list_available_books_local [OF local] sorted_books_strings)
next
  assume "USE_MCP w"
  then show "literary_critic_agent w ((prompt # parts) # msgs)
      = \<lparr>agent_runs = [], reply = Inl (DocstringParsingException ''get_book_metadata'')\<rparr>"
    by (simp add: literary_critic_agent_def define_tools_mcp)
qed

theorem router_fast_path_witness:
  "fast_path ''What books are available in the library?'' \<and>
   literary_critic_agent demo_world [[''What books are available in the library?'']]
     = \<lparr>agent_runs = [],
        reply = Inr [[''Available books (use these keys):'' @ [newline] @ ''- frankenstein''
                      @ [newline] @ ''- mobydick'']]\<rparr> \<and>
   literary_critic_agent empty_world [[''What books are available in the library?'']]
     = \<lparr>agent_runs = [], reply = Inr [[no_books_message]]\<rparr> \<and>
   literary_critic_agent mcp_world [[''What books are available in the library?'']]
     = \<lparr>agent_runs = [], reply = Inl (DocstringParsingException ''get_book_metadata'')\<rparr>"
  using router_fast_path [OF fast_path_example, of demo_world "[]" "[]"]
    router_fast_path [OF fast_path_example, of empty_world "[]" "[]"]
    router_fast_path [OF fast_path_example, of mcp_world "[]" "[]"]
    demo_not_USE_MCP empty_not_USE_MCP mcp_USE_MCP
  by (simp add: fast_path_example demo_scan_books empty_scan_books listing_message_def)

section \<open>Properties of the archivist server\<close>

subsection \<open>The parse step\<close>

text \<open>
  Text that is not JSON, and an object without one of the two fields, are answered with the
  message that describes the expected shape.
\<close>

lemma first_content_single [simp]: "first_content ((p # ps) # ms) = Inr p"
  by (simp add: first_content_def)

lemma parse_request_invalid_json:
  "json_loads w text = Inl msg \<Longrightarrow> parse_request w ((text # ps) # ms) = Inl (JSONDecodeError msg)"
  by (simp add: parse_request_def)

lemma archivist_invalid_json:
  "json_loads w text = Inl msg \<Longrightarrow>
   archivist_agent w ((text # ps) # ms) = Inr [[invalid_input_message msg]]"
  by (simp add: archivist_agent_def parse_request_invalid_json)

lemma archivist_missing_field:
  assumes "json_loads w text = Inr (JObj kvs)"
    and "map_of kvs ''book_title'' = None \<or> map_of kvs ''query'' = None"
  shows "archivist_agent w ((text # ps) # ms)
           = Inr [[invalid_input_message
                     (repr_str (if map_of kvs ''book_title'' = None then ''book_title''
                                else ''query''))]]"
proof (cases "map_of kvs ''book_title''")
  case None
  then have "parse_request w ((text # ps) # ms) = Inl (KeyError ''book_title'')"
    using assms(1) by (simp add: parse_request_def subscript_def)
  then show ?thesis using None by (simp add: archivist_agent_def)
next
  case (Some v)
  then have "map_of kvs ''query'' = None" using assms(2) by simp
  then have "parse_request w ((text # ps) # ms) = Inl (KeyError ''query'')"
    using assms(1) Some by (simp add: parse_request_def subscript_def)
  then show ?thesis using Some by (simp add: archivist_agent_def)
qed

lemma demo_loads_list: "json_loads demo_world ''[]'' = Inr (JArr [])"
  by (simp add: demo_world_def demo_loads_def nonexistent_request_def encode_str_def)

lemma demo_loads_nonexistent:
  "json_loads demo_world (json_dumps nonexistent_request) = Inr nonexistent_request"
  by (simp add: demo_world_def demo_loads_def)

lemma demo_loads_numeric:
  "json_loads demo_world (json_dumps numeric_title_request) = Inr numeric_title_request"
  by (simp add: demo_world_def demo_loads_def nonexistent_request_def
      numeric_title_request_def encode_str_def escape_ascii_def dquote_def backslash_def
      str_int_def nat_digits.simps)

lemma demo_available_books: "available_books demo_world = [''mobydick'', ''frankenstein'']"
  by (simp add: available_books_def demo_world_def path_join_def endswith_def
      splitext_root_def rfind_def)

subsection \<open>The claims\<close>

text \<open>
  Claim C4 says that every request text that is not valid JSON, or is valid JSON without the
  field \<^verbatim>\<open>book_title\<close> or \<^verbatim>\<open>query\<close>, is answered with a text that describes the expected shape.
  The two lemmas above are the cases in which it holds.  It fails on valid JSON that is not an
  object (\<^verbatim>\<open>[]\<close>, \<^verbatim>\<open>42\<close>, \<^verbatim>\<open>"text"\<close>, \<^verbatim>\<open>null\<close>): reading \<^verbatim>\<open>request_data['book_title']\<close> raises
  \<^verbatim>\<open>TypeError\<close>, which the \<^verbatim>\<open>except\<close> clause does not name, so the exception leaves the agent.
\<close>

theorem archivist_non_object_request:
  assumes "json_loads w text = Inr v"
    and "\<forall>kvs. v \<noteq> JObj kvs"
  shows "archivist_agent w ((text # ps) # ms) = Inl TypeError"
proof -
  have "subscript v ''book_title'' = Inl TypeError"
    using assms(2) by (cases v) (simp_all add: subscript_def)
  then have "parse_request w ((text # ps) # ms) = Inl TypeError"
    using assms(1) by (simp add: parse_request_def)
  then show ?thesis by (simp add: archivist_agent_def)
qed

theorem archivist_non_object_request_witness:
  "json_loads demo_world ''[]'' = Inr (JArr []) \<and>
   archivist_agent demo_world [[''[]'']] = Inl TypeError"
proof -
  have "\<forall>kvs. JArr [] \<noteq> JObj kvs" by simp
  then show ?thesis
    using archivist_non_object_request [OF demo_loads_list, of "[]" "[]"]
    by (simp add: demo_loads_list)
qed

text \<open>
  Claim C7 says that every well-formed request whose \<^verbatim>\<open>book_title\<close> names an item without a
  content file is answered with a text that contains the available keys, found by scanning
  the content directory.  For a request with both fields the agent does so when \<^verbatim>\<open>book_title\<close> is
  a string: the text is the title that was not found, followed by the keys of the \<^verbatim>\<open>.txt\<close>
  entries of the directory, joined by commas.  When \<^verbatim>\<open>book_title\<close> is another value (\<^verbatim>\<open>5\<close>,
  \<^verbatim>\<open>null\<close>), the parse step accepts it and the file name is built from its \<^verbatim>\<open>str\<close>, but adding it
  to the text of the answer raises \<^verbatim>\<open>TypeError\<close>, which leaves the agent.
\<close>

theorem archivist_book_not_found:
  assumes "json_loads w text = Inr (JObj kvs)"
    and "map_of kvs ''book_title'' = Some book_title"
    and "map_of kvs ''query'' = Some query"
    and "\<not> isfile w (path_join (path_join (module_dir w) ''data'')
                        (py_str book_title @ ''.txt''))"
  shows "archivist_agent w ((text # ps) # ms)
           = (case book_title of
                JStr title \<Rightarrow>
                  Inr [[''Requested book not found: '' @ [squote] @ title @ [squote]
                         @ ''. Ensure the 'book_title' matches one of: ''
                         @ str_join '', '' (available_books w)]]
              | _ \<Rightarrow> Inl TypeError) \<and>
         available_books w
           = (if isdir w (path_join (module_dir w) ''data'')
              then map splitext_root
                     (filter (\<lambda>f. endswith f ''.txt'')
                        (listdir w (path_join (module_dir w) ''data'')))
              else [])"
proof -
  have "parse_request w ((text # ps) # ms)
      = Inr (book_title, query,
             path_join (path_join (module_dir w) ''data'') (py_str book_title @ ''.txt''))"
    using assms(1,2,3) by (simp add: parse_request_def subscript_def)
  then have "archivist_agent w ((text # ps) # ms)
      = (case book_title of
           JStr title \<Rightarrow> Inr [[not_found_message title (available_books w)]]
         | _ \<Rightarrow> Inl TypeError)"
    using assms(4) by (simp add: archivist_agent_def Let_def)
  then show ?thesis
    by (simp add: not_found_message_def available_books_def Let_def split: json.splits)
qed

theorem archivist_book_not_found_witness:
  "archivist_agent demo_world [[json_dumps nonexistent_request]]
     = Inr [[''Requested book not found: 'nonexistent'. Ensure the 'book_title' matches one of: mobydick, frankenstein'']] \<and>
   archivist_agent demo_world [[json_dumps numeric_title_request]] = Inl TypeError"
proof -
  have 1: "json_loads demo_world (json_dumps nonexistent_request)
      = Inr (JObj [(''book_title'', JStr ''nonexistent''), (''query'', JStr ''q'')])"
    using demo_loads_nonexistent by (simp add: nonexistent_request_def)
  have 2: "map_of [(''book_title'', JStr ''nonexistent''), (''query'', JStr ''q'')] ''book_title''
      = Some (JStr ''nonexistent'')" by simp
  have 3: "map_of [(''book_title'', JStr ''nonexistent''), (''query'', JStr ''q'')] ''query''
      = Some (JStr ''q'')" by simp
  have 4: "\<not> isfile demo_world
      (path_join (path_join (module_dir demo_world) ''data'')
         (py_str (JStr ''nonexistent'') @ ''.txt''))"
    by (simp add: demo_world_def path_join_def endswith_def py_str_def)
  have n1: "json_loads demo_world (json_dumps numeric_title_request)
      = Inr (JObj [(''book_title'', JInt 5), (''query'', JStr ''q'')])"
    using demo_loads_numeric by (simp add: numeric_title_request_def)
  have n2: "map_of [(''book_title'', JInt 5), (''query'', JStr ''q'')] ''book_title''
      = Some (JInt 5)" by simp
  have n3: "map_of [(''book_title'', JInt 5), (''query'', JStr ''q'')] ''query''
      = Some (JStr ''q'')" by simp
  have n4: "\<not> isfile demo_world
      (path_join (path_join (module_dir demo_world) ''data'') (py_str (JInt 5) @ ''.txt''))"
    by (simp add: demo_world_def path_join_def endswith_def py_str_def str_int_def
        nat_digits.simps)
  show ?thesis
    using archivist_book_not_found [OF 1 2 3 4, of "[]" "[]"]
      archivist_book_not_found [OF n1 n2 n3 n4, of "[]" "[]"]
    by (simp add: demo_available_books squote_def)
qed

section \<open>Properties of the calls to a specialist\<close>

text \<open>
  The router's tool catches every exception of the call and returns a text in all cases; the
  client's \<^verbatim>\<open>call_agent\<close> marks a failed run and an empty one.
\<close>

lemma archivist_agent_tool_down:
  "run_sync w ''http://127.0.0.1:8001'' ''archivist_agent'' inp = Raised e \<Longrightarrow>
   archivist_agent_tool w inp = Inr (''Error communicating with Archivist agent: '' @ e)"
  by (simp add: archivist_agent_tool_def)

lemma archivist_agent_tool_empty:
  "run_sync w ''http://127.0.0.1:8001'' ''archivist_agent'' inp = Completed r \<Longrightarrow>
   output_content r = None \<Longrightarrow>
   archivist_agent_tool w inp = Inr ''Archivist returned no content.''"
  by (simp add: archivist_agent_tool_def)

lemma archivist_agent_tool_returns: "\<exists>text. archivist_agent_tool w inp = Inr text"
  by (simp add: archivist_agent_tool_def split: call_outcome.splits option.splits)

lemma call_agent_empty:
  "run_sync w base_url agent_name content = Completed r \<Longrightarrow>
   output_content r = None \<Longrightarrow> run_error r = None \<Longrightarrow>
   call_agent w base_url agent_name content = Inr ''[EMPTY RESPONSE]''"
  by (simp add: call_agent_def)

lemma call_agent_run_error:
  "run_sync w base_url agent_name content = Completed r \<Longrightarrow>
   output_content r = None \<Longrightarrow> run_error r = Some err \<Longrightarrow>
   call_agent w base_url agent_name content = Inr (''[ERROR] '' @ err)"
  by (simp add: call_agent_def)

text \<open>
  Claim C2 says that no transport failure of a specialist call is raised past the call
  operation and that an error text is returned instead.  The router's tool does so (lemmas
  above).  The client's \<^verbatim>\<open>call_agent\<close> does not: it has no handler, and what the client library
  raises leaves \<^verbatim>\<open>call_agent\<close>.
\<close>

theorem call_agent_transport_failure:
  assumes "run_sync w base_url agent_name content = Raised e"
  shows "call_agent w base_url agent_name content = Inl (ClientError e)"
  using assms by (simp add: call_agent_def)

theorem call_agent_transport_failure_witness:
  "run_sync demo_world ''http://127.0.0.1:8001'' ''archivist_agent'' ''{}''
     = Raised ''All connection attempts failed'' \<and>
   call_agent demo_world ''http://127.0.0.1:8001'' ''archivist_agent'' ''{}''
     = Inl (ClientError ''All connection attempts failed'')"
proof -
  have down: "run_sync demo_world ''http://127.0.0.1:8001'' ''archivist_agent'' ''{}''
     = Raised ''All connection attempts failed''"
    by (simp add: demo_world_def)
  show ?thesis
    using call_agent_transport_failure [OF down] down by simp
qed

section \<open>Properties of the interactive client\<close>

subsection \<open>Stripping and lower-casing\<close>

lemma lower_char_idem: "lower_char (lower_char c) = lower_char c"
  by (simp add: lower_char_def Let_def)

lemma isspace_lower_char: "py_isspace (lower_char c) = py_isspace c"
  by (auto simp add: lower_char_def py_isspace_def Let_def)

lemma lower_idem: "lower (lower s) = lower s"
  by (simp add: lower_def lower_char_idem)

lemma strip_lower: "strip (lower s) = lower (strip s)"
proof -
  have comp: "py_isspace \<circ> lower_char = py_isspace"
    by (rule ext) (simp add: isspace_lower_char)
  have dw: "dropWhile py_isspace (map lower_char xs) = map lower_char (dropWhile py_isspace xs)"
    for xs by (simp add: dropWhile_map comp)
  show ?thesis
    by (simp add: strip_def lower_def dw rev_map)
qed

lemma dropWhile_rev_dropWhile:
  "dropWhile P (rev (dropWhile P (rev (dropWhile P s)))) = rev (dropWhile P (rev (dropWhile P s)))"
proof -
  define t where "t = dropWhile P s"
  define u where "u = dropWhile P (rev t)"
  have "rev t = takeWhile P (rev t) @ u"
    by (simp add: u_def)
  then have "rev (rev t) = rev (takeWhile P (rev t) @ u)"
    by (rule arg_cong)
  then have t: "t = rev u @ rev (takeWhile P (rev t))"
    by simp
  have "dropWhile P (rev u) = rev u"
  proof (cases "rev u = []")
    case True
    then show ?thesis by simp
  next
    case False
    then have "hd (rev u) = hd t"
      using t by (metis hd_append2)
    moreover have "t \<noteq> []"
      using t False by auto
    then have "\<not> P (hd t)"
      unfolding t_def by (rule hd_dropWhile)
    ultimately show ?thesis
      by (simp add: dropWhile_eq_self_iff)
  qed
  then show ?thesis
    by (simp add: t_def u_def)
qed

lemma strip_idem: "strip (strip s) = strip s"
  by (simp add: strip_def dropWhile_rev_dropWhile)

lemma aliases_value: "map_of ALIASES k = Some v \<Longrightarrow> v = ''prideandprejudice''"
  by (simp add: ALIASES_def split: if_splits)

lemma normalize_canonical: "normalize_key ''prideandprejudice'' = ''prideandprejudice''"
  by (simp add: normalize_key_def strip_def lower_def lower_char_def py_isspace_def ALIASES_def)

subsection \<open>The command dispatch\<close>

lemma use_prefix_not_command:
  assumes "startswith u ''/use ''"
  shows "u \<noteq> [] \<and> u \<notin> set [''/exit'', ''exit'', ''quit'', '':q''] \<and>
         u \<notin> set [''/help'', ''help''] \<and> u \<notin> set [''/agents'', ''agents'']"
  using assms by auto

lemma lower_Nil_iff: "lower u = [] \<longleftrightarrow> u = []"
  by (simp add: lower_def)

lemma interactive_step_use:
  assumes "stdin s = line # rest"
    and "startswith (lower (strip line)) ''/use ''"
  shows "interactive_step w s
           = map_sum id (Pair Continue)
               (handle_use (strip line)
                  (s\<lparr>stdout := stdout s @ [[newline] @ ''> ''], stdin := rest\<rparr>))"
proof -
  have "strip line \<noteq> []"
    using use_prefix_not_command [OF assms(2)] by (simp add: lower_Nil_iff)
  then show ?thesis
    using use_prefix_not_command [OF assms(2)] assms
    by (simp add: interactive_step_def Let_def)
qed

lemma agent_names: "map fst AGENTS = [''critic'', ''archivist'', ''catalog'']"
  by (simp add: AGENTS_def)

lemma strip_use_nobody: "strip ''/use nobody'' = ''/use nobody''"
  by (simp add: strip_def py_isspace_def)

lemma strip_use_archivist: "strip '' /USE Archivist '' = ''/USE Archivist''"
  by (simp add: strip_def py_isspace_def)

subsection \<open>The loop ends\<close>

text \<open>
  A turn that goes round has read at least one line, so the loop of \<^verbatim>\<open>interactive\<close> ends on
  every finite input: with the final state, or with the exception that ended the program.
\<close>

lemma stdin_print [simp]: "stdin (print text s) = stdin s"
  by (simp add: print_def)

lemma stdin_fold_print [simp]: "stdin (fold print texts s) = stdin s"
  by (induction texts arbitrary: s) simp_all

lemma stdin_print_banner: "print_banner cur s = Inr s' \<Longrightarrow> stdin s' = stdin s"
  by (auto simp add: print_banner_def Let_def split: sum.splits)

lemma stdin_handle_agents [simp]: "stdin (handle_agents s) = stdin s"
  by (simp add: handle_agents_def AGENTS_def)

lemma stdin_handle_use: "handle_use u s = Inr s' \<Longrightarrow> stdin s' = stdin s"
  by (auto simp add: handle_use_def Let_def split: sum.splits if_splits)

lemma stdin_handle_meta: "handle_meta w u s = Inr s' \<Longrightarrow> stdin s' = stdin s"
  by (auto simp add: handle_meta_def Let_def split: json.splits if_splits)

lemma stdin_request_response:
  "request_response w url agent payload s = Inr s' \<Longrightarrow> stdin s' = stdin s"
  by (auto simp add: request_response_def Let_def split: sum.splits)

lemma stdin_handle_list: "handle_list w s = Inr s' \<Longrightarrow> stdin s' = stdin s"
  by (auto simp add: handle_list_def split: sum.splits if_splits dest: stdin_request_response)

lemma stdin_handle_question:
  "handle_question w u s = Inr s' \<Longrightarrow> length (stdin s') \<le> length (stdin s)"
  by (auto simp add: handle_question_def Let_def
      split: sum.splits if_splits list.splits dest!: stdin_request_response)

lemma interactive_step_reads:
  assumes "interactive_step w s = Inr (Continue, s')"
  shows "length (stdin s') < length (stdin s)"
proof (cases "stdin s")
  case Nil
  with assms show ?thesis
    by (simp add: interactive_step_def Let_def)
next
  case (Cons line rest)
  with assms show ?thesis
    by (auto simp add: interactive_step_def Let_def map_sum_def
        split: if_splits sum.splits
        dest!: stdin_print_banner stdin_handle_use stdin_handle_meta stdin_handle_list
          stdin_handle_question)
qed

lemma interactive_loop_returns:
  "length (stdin s) < fuel \<Longrightarrow> \<exists>r. interactive_loop fuel w s = Some r"
proof (induction fuel arbitrary: s)
  case 0
  then show ?case by simp
next
  case (Suc fuel)
  show ?case
  proof (cases "interactive_step w s")
    case (Inl e)
    then show ?thesis by simp
  next
    case (Inr cs)
    obtain c s' where cs: "cs = (c, s')" by (cases cs)
    show ?thesis
    proof (cases c)
      case Break
      with Inr cs show ?thesis by simp
    next
      case Continue
      then have "length (stdin s') < length (stdin s)"
        using Inr cs interactive_step_reads by simp
      then have "length (stdin s') < fuel"
        using Suc.prems by simp
      then show ?thesis
        using Suc.IH Inr cs Continue by simp
    qed
  qed
qed

lemma interactive_returns: "\<exists>r. interactive w typed = Some r"
proof (cases "print_banner ''critic'' \<lparr>current = ''critic'', stdin = typed, stdout = []\<rparr>")
  case (Inl e)
  then show ?thesis by (simp add: interactive_def)
next
  case (Inr s)
  then have "stdin s = typed"
    using stdin_print_banner by fastforce
  then have "length (stdin s) < Suc (length typed)" by simp
  then have "\<exists>r. interactive_loop (Suc (length typed)) w s = Some r"
    by (rule interactive_loop_returns)
  then show ?thesis
    using Inr by (simp add: interactive_def del: interactive_loop.simps)
qed

subsection \<open>The claims\<close>

text \<open>
  Claim C8.  The key normalizer, which strips, lower-cases and applies the alias table, is
  idempotent.
\<close>

theorem normalize_key_idempotent: "normalize_key (normalize_key x) = normalize_key x"
proof (cases "map_of ALIASES (lower (strip x))")
  case None
  have "lower (strip (lower (strip x))) = lower (strip x)"
    by (simp add: strip_lower strip_idem lower_idem)
  with None show ?thesis
    by (simp add: normalize_key_def)
next
  case (Some v)
  then have "normalize_key x = ''prideandprejudice''"
    using aliases_value [OF Some] by (simp add: normalize_key_def)
  then show ?thesis
    by (simp add: normalize_canonical)
qed

theorem normalize_key_idempotent_witness:
  "normalize_key (normalize_key ''  Pride & Prejudice '') = ''prideandprejudice''"
proof -
  have "normalize_key ''  Pride & Prejudice '' = ''prideandprejudice''"
    by code_simp
  then show ?thesis
    using normalize_key_idempotent [of "''  Pride & Prejudice ''"] by simp
qed

text \<open>
  Claim C9.  A line that starts with \<^verbatim>\<open>/use\<close> and a space names the text after the first space,
  stripped and lower-cased.  For a name that is not configured the client prints the error
  line and the turn changes nothing but the terminal (the line is read, the prompt and the
  error are written): the active agent is as before.  For a configured name the active agent
  becomes that name.
\<close>

theorem use_command:
  assumes "stdin s = line # rest"
    and "startswith (lower (strip line)) ''/use ''"
    and "name = lower (strip (partition_space_2 (strip line)))"
  shows "(name \<notin> set (map fst AGENTS) \<longrightarrow>
            interactive_step w s
              = Inr (Continue,
                     s\<lparr>stdin := rest,
                       stdout := stdout s @
                         [[newline] @ ''> '',
                          ''Unknown agent '' @ [squote] @ name @ [squote]
                            @ ''. Try one of: critic, archivist, catalog'' @ [newline]]\<rparr>)) \<and>
         (name \<in> set (map fst AGENTS) \<longrightarrow>
            (\<exists>text. interactive_step w s
                      = Inr (Continue,
                             s\<lparr>current := name, stdin := rest,
                               stdout := stdout s @ [[newline] @ ''> '', text]\<rparr>)))"
proof (intro conjI impI)
  assume unknown: "name \<notin> set (map fst AGENTS)"
  then have "handle_use (strip line) (s\<lparr>stdout := stdout s @ [[newline] @ ''> ''], stdin := rest\<rparr>)
      = Inr (print (''Unknown agent '' @ [squote] @ name @ [squote] @ ''. Try one of: ''
                       @ str_join '', '' (map fst AGENTS))
               (s\<lparr>stdout := stdout s @ [[newline] @ ''> ''], stdin := rest\<rparr>))"
    using assms(3) by (simp add: handle_use_def Let_def)
  then show "interactive_step w s
              = Inr (Continue,
                     s\<lparr>stdin := rest,
                       stdout := stdout s @
                         [[newline] @ ''> '',
                          ''Unknown agent '' @ [squote] @ name @ [squote]
                            @ ''. Try one of: critic, archivist, catalog'' @ [newline]]\<rparr>)"
    by (simp add: interactive_step_use [OF assms(1,2)] print_def agent_names)
next
  assume known: "name \<in> set (map fst AGENTS)"
  then obtain url agent_name where conf: "agents_get name = Inr (url, agent_name)"
    by (auto simp add: AGENTS_def agents_get_def)
  have "handle_use (strip line) (s\<lparr>stdout := stdout s @ [[newline] @ ''> ''], stdin := rest\<rparr>)
      = Inr (print (''Switched to '' @ [squote] @ name @ [squote] @ '' -> ''
                               @ agent_name @ '' @ '' @ url)
               (s\<lparr>stdout := stdout s @ [[newline] @ ''> ''], stdin := rest, current := name\<rparr>))"
    using known conf assms(3) by (simp add: handle_use_def Let_def)
  then have "interactive_step w s
      = Inr (Continue,
             s\<lparr>current := name, stdin := rest,
               stdout := stdout s @ [[newline] @ ''> '',
                 ''Switched to '' @ [squote] @ name @ [squote] @ '' -> ''
                               @ agent_name @ '' @ '' @ url @ [newline]]\<rparr>)"
    by (simp add: interactive_step_use [OF assms(1,2)] print_def)
  then show "\<exists>text. interactive_step w s
                      = Inr (Continue,
                             s\<lparr>current := name, stdin := rest,
                               stdout := stdout s @ [[newline] @ ''> '', text]\<rparr>)"
    by blast
qed

theorem use_command_witness:
  "interactive_step demo_world \<lparr>current = ''critic'', stdin = [''/use nobody''], stdout = []\<rparr>
     = Inr (Continue,
            \<lparr>current = ''critic'', stdin = [],
             stdout = [[newline] @ ''> '',
                       ''Unknown agent 'nobody'. Try one of: critic, archivist, catalog''
                         @ [newline]]\<rparr>) \<and>
   (\<exists>text. interactive_step demo_world
             \<lparr>current = ''critic'', stdin = ['' /USE Archivist ''], stdout = []\<rparr>
      = Inr (Continue,
             \<lparr>current = ''archivist'', stdin = [], stdout = [[newline] @ ''> '', text]\<rparr>))"
proof -
  have a: "stdin \<lparr>current = ''critic'', stdin = [''/use nobody''], stdout = []\<rparr>
      = ''/use nobody'' # []" by simp
  have b: "startswith (lower (strip ''/use nobody'')) ''/use ''"
    by (simp add: strip_use_nobody lower_def lower_char_def)
  have c: "''nobody'' = lower (strip (partition_space_2 (strip ''/use nobody'')))"
    by (simp add: strip_use_nobody partition_space_2_def)
       (simp add: strip_def py_isspace_def lower_def lower_char_def)
  have d: "''nobody'' \<notin> set (map fst AGENTS)"
    by (simp add: agent_names)
  have a': "stdin \<lparr>current = ''critic'', stdin = ['' /USE Archivist ''], stdout = []\<rparr>
      = '' /USE Archivist '' # []" by simp
  have b': "startswith (lower (strip '' /USE Archivist '')) ''/use ''"
    by code_simp
  have c': "''archivist'' = lower (strip (partition_space_2 (strip '' /USE Archivist '')))"
    by code_simp
  have d': "''archivist'' \<in> set (map fst AGENTS)"
    by (simp add: agent_names)
  show ?thesis
    using use_command [OF a b c, of demo_world] d use_command [OF a' b' c', of demo_world] d'
    by (simp add: squote_def)
qed

end
